theory Spec2Isabelle
  imports Main "HOL-Library.AList"
begin

section \<open>The notifier of ufds-terror-alert (lib/notifier.js)\<close>

text \<open>
  The Notifier reacts to directory events: it reads rows from a local row store,
  decides who is to be told, renders a template and hands a message to a mail
  transport. The callbacks of the row store and of the mail transport are modelled
  as run to completion, in the order the source chains them; what the collaborators
  answer is a parameter (\<open>env\<close>), what the Notifier changes is the state. The one
  row the Notifier both reads and writes is the metadata row of the key-mismatch
  handler: there the read and the callback are separate steps, so that calls which
  overlap can be composed.
\<close>

subsection \<open>Rows, keys and configuration\<close>

type_synonym db_error = string

text \<open>
  A row of the table \<open>users\<close> (\<open>select * from users where uuid = ?\<close>); the
  columns carry the prefix \<open>row_\<close> here, the handlers' parameters keep their names.
\<close>

record user_row =
  row_uuid :: string
  row_login :: string
  row_email :: string
  row_status :: string
  row_operator :: int
  row_reader :: int
  row_roleoper :: int

text \<open>
  A row of \<open>select uuid, name, comment from keys where fingerprint = ? and uuid != ?\<close>.
  The key-added handler later assigns \<open>login\<close> and \<open>email\<close> on the row object;
  before that the two properties are undefined (\<open>None\<close>).
\<close>

record location =
  loc_uuid :: string
  loc_name :: string
  loc_comment :: string
  loc_login :: "string option"
  loc_email :: "string option"

text \<open>A row of \<open>select * from keys where uuid = ?\<close>.\<close>

record key_row =
  kr_uuid :: string
  kr_fingerprint :: string
  kr_name :: string
  kr_comment :: string

text \<open>
  An sshpk key, as far as the Notifier looks at it: \<open>key.fingerprint().toString()\<close>
  and \<open>key.fingerprint('md5').toString('hex')\<close>.
\<close>

record sshkey =
  fingerprint_default :: string
  fingerprint_md5_hex :: string

text \<open>The recipients of a message: one address, or an array of addresses.\<close>

datatype rcpt = Addr string | Addrs "string list"

record config =
  cloud_name :: string
  company :: string
  initialSync :: bool
  my_email :: string
  operators :: rcpt
  oper_prefix :: string
  user_prefix :: string
  whitelist :: "string list option"

subsection \<open>Templates and mail\<close>

text \<open>
  The values handed to a template. Dates are milliseconds since the epoch;
  \<open>Undefined\<close> is the JavaScript value.
\<close>

datatype jsval =
    Undefined
  | Str string
  | DateV int
  | UserV user_row
  | KeyV sshkey
  | KeyListV "sshkey list"
  | KeyRowsV "key_row list"
  | LocationsV "location list"

text \<open>
  The template engine (ejs) is a collaborator: a rendered text is the name of the
  template together with the variables it was given.
\<close>

record rendered =
  tpl_name :: string
  tpl_args :: "(string \<times> jsval) list"

record mail =
  mail_from :: string
  mail_to :: rcpt
  mail_subject :: string
  mail_text :: rendered

datatype log_entry =
    LogError "db_error option" string "string list"
  | LogInfo string

text \<open>The calls made on the row store, in the order they are made.\<close>

datatype query =
    SelectMetadata string
  | UpsertMetadata string int
  | SelectUser string
  | SelectKeysByFingerprint string string
  | SelectKeysByUuid string

text \<open>The invocations of the two mail helpers, in the order they are made.\<close>

datatype helper_call =
    OperatorMail string rendered
  | UserMail rcpt string rendered

subsection \<open>Collaborators and state\<close>

text \<open>
  What the row store answers: an error, or the rows; within one handler a query is
  answered the same way each time it is made. The table \<open>metadata\<close> is written by
  the Notifier and therefore lives in the state; \<open>metadata_error\<close> says whether
  reading it fails.
\<close>

record db =
  users_get :: "string \<Rightarrow> db_error + user_row option"
  keys_by_fingerprint :: "string \<Rightarrow> string \<Rightarrow> db_error + location list"
  keys_by_uuid :: "string \<Rightarrow> db_error + key_row list"
  metadata_error :: "db_error option"

record env =
  cfg :: config
  store :: db
  mailer :: "mail \<Rightarrow> string + string"

text \<open>
  The state: the Notifier's own fields (\<open>tplCache\<close>, \<open>lastKeyMismatch\<close>), the
  table \<open>metadata\<close> (the value column holds \<open>now.toISOString()\<close>, which
  \<open>new Date(row.value)\<close> reads back to the same millisecond, so the model keeps
  the millisecond count), the messages handed to \<open>mailer.sendMail\<close>, the log, and
  two histories that nothing reads: the row-store calls and the helper invocations.
\<close>

record state =
  tplCache :: "string list"
  lastKeyMismatch :: "int option"
  metadata :: "string \<rightharpoonup> int"
  sent :: "mail list"
  logs :: "log_entry list"
  queries :: "query list"
  calls :: "helper_call list"

definition init_state :: state where
  "init_state = \<lparr> tplCache = [], lastKeyMismatch = None, metadata = Map.empty,
     sent = [], logs = [], queries = [], calls = [] \<rparr>"

definition log_entry_add :: "log_entry \<Rightarrow> state \<Rightarrow> state" where
  "log_entry_add e st = st\<lparr>logs := logs st @ [e]\<rparr>"

definition query_add :: "query \<Rightarrow> state \<Rightarrow> state" where
  "query_add q st = st\<lparr>queries := queries st @ [q]\<rparr>"

subsection \<open>render, operatorMail, userMail\<close>

text \<open>
  \<open>render\<close> compiles a template on first use and keeps it; it sets \<open>cloud_name\<close>
  and \<open>company\<close> on the argument object. The template files are taken to exist.
  Both mail helpers return at once during initial synchronisation; otherwise they
  build the message, hand it to the transport and log what the transport answers
  (the recipient and subject that \<open>userMail\<close> formats into its error line are not
  kept).
\<close>

definition render :: "env \<Rightarrow> string \<Rightarrow> (string \<times> jsval) list \<Rightarrow> state \<Rightarrow> rendered \<times> state" where
  "render e tpl args st =
     (let st' = (if tpl \<in> set (tplCache st) then st
                 else st\<lparr>tplCache := tplCache st @ [tpl]\<rparr>);
          args' = AList.update ''cloud_name'' (Str (cloud_name (cfg e))) args;
          args'' = AList.update ''company'' (Str (company (cfg e))) args'
      in (\<lparr> tpl_name = tpl, tpl_args = args'' \<rparr>, st'))"

definition operatorMail :: "env \<Rightarrow> string \<Rightarrow> rendered \<Rightarrow> state \<Rightarrow> state" where
  "operatorMail e subject txt st =
     (let st0 = st\<lparr>calls := calls st @ [OperatorMail subject txt]\<rparr> in
      if initialSync (cfg e) then st0
      else
        let m = \<lparr> mail_from = my_email (cfg e), mail_to = operators (cfg e),
                  mail_subject = oper_prefix (cfg e) @ subject, mail_text = txt \<rparr>;
            st1 = st0\<lparr>sent := sent st0 @ [m]\<rparr>
        in (case mailer e m of
              Inl err \<Rightarrow> log_entry_add (LogError (Some err) ''failed sending operator mail'' []) st1
            | Inr info \<Rightarrow> log_entry_add (LogInfo ''sent mail to operators'') st1))"

definition userMail :: "env \<Rightarrow> rcpt \<Rightarrow> string \<Rightarrow> rendered \<Rightarrow> state \<Rightarrow> state" where
  "userMail e to subject txt st =
     (let st0 = st\<lparr>calls := calls st @ [UserMail to subject txt]\<rparr> in
      if initialSync (cfg e) then st0
      else
        let m = \<lparr> mail_from = my_email (cfg e), mail_to = to,
                  mail_subject = user_prefix (cfg e) @ subject, mail_text = txt \<rparr>;
            st1 = st0\<lparr>sent := sent st0 @ [m]\<rparr>
        in (case mailer e m of
              Inl err \<Rightarrow> log_entry_add (LogError (Some err) ''failed sending user mail to %j (%s)'' []) st1
            | Inr info \<Rightarrow> log_entry_add (LogInfo ''sent mail to user'') st1))"

subsection \<open>ufdsKeyMismatch\<close>

text \<open>
  The method only issues the read of the metadata row and returns; the rest happens
  in the callback, once the store has answered. So the handler is two steps.
  \<open>ufdsKeyMismatch_get\<close> is the store carrying out the read: its answer is the
  error, or the row as it is at that moment. \<open>ufdsKeyMismatch_callback\<close> is the
  callback on that answer; \<open>now\<close> is the value of \<open>new Date()\<close> inside it, in
  milliseconds. \<open>db.run\<close> is given no callback: the row is taken as written when
  the callback runs.

  Calls may overlap: when a second call is issued before the callback of the first
  has run, the store reads for both before either writes, which is the two reads
  followed by the two callbacks. \<open>ufdsKeyMismatch\<close> is a call that does not
  overlap with another: its callback runs on the row just read.
\<close>

definition ufdsKeyMismatch_get :: "env \<Rightarrow> state \<Rightarrow> (db_error + int option) \<times> state" where
  "ufdsKeyMismatch_get e st =
     (let st0 = query_add (SelectMetadata ''last_key_mismatch'') st in
      case metadata_error (store e) of
        Some err \<Rightarrow> (Inl err, st0)
      | None \<Rightarrow> (Inr (metadata st0 ''last_key_mismatch''), st0))"

definition ufdsKeyMismatch_callback ::
  "env \<Rightarrow> string \<Rightarrow> sshkey \<Rightarrow> int \<Rightarrow> db_error + int option \<Rightarrow> state \<Rightarrow> state" where
  "ufdsKeyMismatch_callback e expectedFp newKey now answer st =
     (case answer of
        Inl err \<Rightarrow> log_entry_add (LogError (Some err) ''failed reading from db'' []) st
      | Inr row \<Rightarrow>
         (let last = (case row of None \<Rightarrow> lastKeyMismatch st | Some v \<Rightarrow> Some v);
              st1 = query_add (UpsertMetadata ''last_key_mismatch'' now)
                      (st\<lparr>metadata := (metadata st)(''last_key_mismatch'' \<mapsto> now)\<rparr>);
              st2 = (if (case last of None \<Rightarrow> True
                                    | Some l \<Rightarrow> now - l > 4 * 3600 * 1000)
                     then (let (txt, st') = render e ''ufds-key-mismatch''
                                  [(''expectedFp'', Str expectedFp),
                                   (''newFp'', Str (fingerprint_default newKey))] st1
                           in operatorMail e ''UFDS key mismatch'' txt st')
                     else st1)
          in st2\<lparr>lastKeyMismatch := Some now\<rparr>))"

definition ufdsKeyMismatch :: "env \<Rightarrow> string \<Rightarrow> sshkey \<Rightarrow> int \<Rightarrow> state \<Rightarrow> state" where
  "ufdsKeyMismatch e expectedFp newKey now st =
     (let (answer, st0) = ufdsKeyMismatch_get e st
      in ufdsKeyMismatch_callback e expectedFp newKey now answer st0)"

text \<open>
  Two calls that overlap: both are issued, with their reads carried out, before the
  callback of the first runs at \<open>now1\<close> and that of the second at \<open>now2\<close>.
\<close>

definition ufdsKeyMismatch_overlapping ::
  "env \<Rightarrow> string \<Rightarrow> sshkey \<Rightarrow> int \<Rightarrow> string \<Rightarrow> sshkey \<Rightarrow> int \<Rightarrow> state \<Rightarrow> state" where
  "ufdsKeyMismatch_overlapping e expectedFp1 newKey1 now1 expectedFp2 newKey2 now2 st =
     (let (answer1, st1) = ufdsKeyMismatch_get e st;
          (answer2, st2) = ufdsKeyMismatch_get e st1;
          st3 = ufdsKeyMismatch_callback e expectedFp1 newKey1 now1 answer1 st2
      in ufdsKeyMismatch_callback e expectedFp2 newKey2 now2 answer2 st3)"

subsection \<open>The policy predicates\<close>

text \<open>\<open>Array.prototype.indexOf\<close>: the first position of the element, or \<open>-1\<close>.\<close>

fun indexOf :: "'a list \<Rightarrow> 'a \<Rightarrow> int" where
  "indexOf [] x = - 1"
| "indexOf (y # ys) x =
     (if y = x then 0
      else (let i = indexOf ys x in if i = - 1 then - 1 else i + 1))"

text \<open>
  The three conditions the handlers compute: the local variables \<open>whitelisted\<close>
  and \<open>disabled\<close>, and the test on the three role columns.
\<close>

definition whitelisted :: "env \<Rightarrow> string \<Rightarrow> bool" where
  "whitelisted e uuid =
     (case whitelist (cfg e) of
        None \<Rightarrow> True
      | Some wl \<Rightarrow> length wl < 1 \<or> indexOf wl uuid \<noteq> - 1)"

definition disabled :: "user_row \<Rightarrow> bool" where
  "disabled row = (row_status row \<noteq> ''active'')"

definition privileged :: "user_row \<Rightarrow> bool" where
  "privileged row = (row_operator row = 1 \<or> row_reader row = 1 \<or> row_roleoper row = 1)"

subsection \<open>The handlers with one lookup\<close>

definition changedLogin ::
  "env \<Rightarrow> int \<Rightarrow> string \<Rightarrow> string \<Rightarrow> string \<Rightarrow> string \<Rightarrow> state \<Rightarrow> state" where
  "changedLogin e when uuid oldLogin newLogin email st =
     (let st0 = query_add (SelectUser uuid) st in
      case users_get (store e) uuid of
        Inl err \<Rightarrow> log_entry_add (LogError (Some err) ''failed reading from db'' []) st0
      | Inr None \<Rightarrow>
          log_entry_add (LogError None
            ''changed login user %s, but they could not be found in the database'' [uuid]) st0
      | Inr (Some row) \<Rightarrow>
          if \<not> disabled row then
            (let (txt, st1) = render e ''changed-login''
                   [(''when'', DateV when), (''uuid'', Str uuid), (''oldLogin'', Str oldLogin),
                    (''newLogin'', Str newLogin), (''email'', Str email)] st0
             in operatorMail e (''Account '' @ oldLogin @ '' login name changed'') txt st1)
          else st0)"

definition changedPassword :: "env \<Rightarrow> int \<Rightarrow> string \<Rightarrow> string \<Rightarrow> state \<Rightarrow> state" where
  "changedPassword e when uuid email st =
     (let st0 = query_add (SelectUser uuid) st in
      case users_get (store e) uuid of
        Inl err \<Rightarrow> log_entry_add (LogError (Some err) ''failed reading from db'' []) st0
      | Inr None \<Rightarrow>
          log_entry_add (LogError None
            ''operator del from user %s, but they could not be found in the database'' [uuid]) st0
      | Inr (Some row) \<Rightarrow>
          (let (txt, st1) = render e ''pw-changed''
                 [(''when'', DateV when), (''uuid'', Str uuid), (''user'', UserV row)] st0;
               st2 = (if whitelisted e uuid \<and> \<not> disabled row
                      then userMail e (Addr (row_email row))
                             ''Your password has been changed'' txt st1
                      else st1)
           in if privileged row then
                (let (txt2, st3) = render e ''oper-pw-changed''
                       [(''when'', DateV when), (''uuid'', Str uuid), (''user'', UserV row)] st2
                 in operatorMail e (''Password changed for operator '' @ row_login row) txt2 st3)
              else st2))"

definition changedEmail :: "env \<Rightarrow> int \<Rightarrow> string \<Rightarrow> string \<Rightarrow> string \<Rightarrow> state \<Rightarrow> state" where
  "changedEmail e when uuid oldEmail newEmail st =
     (let st0 = query_add (SelectUser uuid) st in
      case users_get (store e) uuid of
        Inl err \<Rightarrow> log_entry_add (LogError (Some err) ''failed reading from db'' []) st0
      | Inr None \<Rightarrow>
          log_entry_add (LogError None
            ''email change from user %s, but they could not be found in the database'' [uuid]) st0
      | Inr (Some row) \<Rightarrow>
          (let (txt, st1) = render e ''email-changed''
                 [(''when'', DateV when), (''uuid'', Str uuid), (''oldEmail'', Str oldEmail),
                  (''newEmail'', Str newEmail), (''user'', UserV row)] st0;
               st2 = (if whitelisted e uuid \<and> \<not> disabled row
                      then userMail e (Addrs [oldEmail, newEmail])
                             ''Your email address has been changed'' txt st1
                      else st1)
           in if privileged row then
                (let (txt2, st3) = render e ''oper-email-changed''
                       [(''when'', DateV when), (''uuid'', Str uuid), (''oldEmail'', Str oldEmail),
                        (''newEmail'', Str newEmail), (''user'', UserV row)] st2
                 in operatorMail e (''Operator email change for '' @ row_login row) txt2 st3)
              else st2))"

definition deletedUser :: "env \<Rightarrow> int \<Rightarrow> string \<Rightarrow> user_row \<Rightarrow> state \<Rightarrow> state" where
  "deletedUser e when uuid user st =
     (if privileged user then
        (let (txt, st1) = render e ''deleted-operator''
               [(''when'', DateV when), (''uuid'', Str uuid), (''user'', UserV user)] st
         in operatorMail e (''Operator account '' @ row_login user @ '' deleted'') txt st1)
      else st)"

definition deletedKey ::
  "env \<Rightarrow> int \<Rightarrow> string \<Rightarrow> sshkey \<Rightarrow> string \<Rightarrow> sshkey list \<Rightarrow> state \<Rightarrow> state" where
  "deletedKey e when uuid key name otherKeys st =
     (let st0 = query_add (SelectUser uuid) st in
      case users_get (store e) uuid of
        Inl err \<Rightarrow> log_entry_add (LogError (Some err) ''failed reading from db'' []) st0
      | Inr None \<Rightarrow>
          log_entry_add (LogError None
            ''deleted key from user %s, but they could not be found in the database'' [uuid]) st0
      | Inr (Some row) \<Rightarrow>
          (let (txt, st1) = render e ''deleted-key''
                 [(''when'', DateV when), (''uuid'', Str uuid), (''key'', KeyV key),
                  (''name'', Str name), (''keys'', KeyListV otherKeys), (''user'', UserV row)] st0;
               st2 = (if whitelisted e uuid \<and> \<not> disabled row
                      then userMail e (Addr (row_email row))
                             (''SSH key deleted from account '' @ row_login row) txt st1
                      else st1)
           in if privileged row then
                (let (txt2, st3) = render e ''oper-deleted-key''
                       [(''when'', DateV when), (''uuid'', Str uuid), (''key'', KeyV key),
                        (''name'', Str name), (''keys'', KeyListV otherKeys),
                        (''user'', UserV row)] st2
                 in operatorMail e (''SSH key deleted from operator '' @ row_login row) txt2 st3)
              else st2))"

subsection \<open>vasync: pipeline and forEachPipeline\<close>

text \<open>
  A stage ends by calling its callback without an error (\<open>Next\<close>) or with one
  (\<open>CbError\<close>), or an exception leaves it (\<open>Thrown\<close>). \<open>pipeline\<close> runs the stages
  in order on one shared argument and stops at the first that does not end with
  \<open>Next\<close>; \<open>forEachPipeline\<close> does the same with one function over the inputs, each
  of which the function may change in place.
\<close>

datatype stage_result = Next | CbError db_error | Thrown string

fun pipeline ::
  "('c \<Rightarrow> state \<Rightarrow> stage_result \<times> 'c \<times> state) list \<Rightarrow> 'c \<Rightarrow> state
     \<Rightarrow> stage_result \<times> 'c \<times> state" where
  "pipeline [] c st = (Next, c, st)"
| "pipeline (f # fs) c st =
     (case f c st of
        (Next, c', st') \<Rightarrow> pipeline fs c' st'
      | (r, c', st') \<Rightarrow> (r, c', st'))"

fun forEachPipeline ::
  "('a \<Rightarrow> state \<Rightarrow> stage_result \<times> 'a \<times> state) \<Rightarrow> 'a list \<Rightarrow> state
     \<Rightarrow> stage_result \<times> 'a list \<times> state" where
  "forEachPipeline f [] st = (Next, [], st)"
| "forEachPipeline f (x # xs) st =
     (case f x st of
        (Next, x', st') \<Rightarrow>
          (case forEachPipeline f xs st' of (r, xs', st'') \<Rightarrow> (r, x' # xs', st''))
      | (r, x', st') \<Rightarrow> (r, x' # xs, st'))"

subsection \<open>addedKey\<close>

text \<open>The argument object \<open>_\<close> of the pipeline, \<open>{}\<close> at the start.\<close>

record ctx =
  ctx_user :: "user_row option"
  ctx_otherLocations :: "location list option"

definition ctx_user_val :: "ctx \<Rightarrow> jsval" where
  "ctx_user_val c = (case ctx_user c of None \<Rightarrow> Undefined | Some u \<Rightarrow> UserV u)"

definition ctx_otherLocations_val :: "ctx \<Rightarrow> jsval" where
  "ctx_otherLocations_val c =
     (case ctx_otherLocations c of None \<Rightarrow> Undefined | Some ls \<Rightarrow> LocationsV ls)"

definition getUser :: "env \<Rightarrow> string \<Rightarrow> ctx \<Rightarrow> state \<Rightarrow> stage_result \<times> ctx \<times> state" where
  "getUser e uuid c st =
     (let st0 = query_add (SelectUser uuid) st in
      case users_get (store e) uuid of
        Inl err \<Rightarrow>
          (CbError err, c, log_entry_add (LogError (Some err) ''failed reading from db'' []) st0)
      | Inr None \<Rightarrow>
          (CbError ''Not Found'', c,
           log_entry_add (LogError None
             ''added key to user %s, but they could not be found in the database'' [uuid]) st0)
      | Inr (Some row) \<Rightarrow> (Next, c\<lparr>ctx_user := Some row\<rparr>, st0))"

definition findKeys ::
  "env \<Rightarrow> string \<Rightarrow> sshkey \<Rightarrow> ctx \<Rightarrow> state \<Rightarrow> stage_result \<times> ctx \<times> state" where
  "findKeys e uuid key c st =
     (let st0 = query_add (SelectKeysByFingerprint (fingerprint_md5_hex key) uuid) st in
      case keys_by_fingerprint (store e) (fingerprint_md5_hex key) uuid of
        Inl err \<Rightarrow> (CbError err, c, st0)
      | Inr rows \<Rightarrow> (Next, c\<lparr>ctx_otherLocations := Some rows\<rparr>, st0))"

text \<open>
  \<open>fetchOtherUser\<close> reads \<open>row.login\<close> without looking at \<open>row\<close>: on a missing row
  that is a TypeError, thrown before anything is assigned.
\<close>

definition fetchOtherUser ::
  "env \<Rightarrow> location \<Rightarrow> state \<Rightarrow> stage_result \<times> location \<times> state" where
  "fetchOtherUser e user st =
     (let st0 = query_add (SelectUser (loc_uuid user)) st in
      case users_get (store e) (loc_uuid user) of
        Inl err \<Rightarrow> (CbError err, user, st0)
      | Inr None \<Rightarrow> (Thrown ''TypeError'', user, st0)
      | Inr (Some row) \<Rightarrow>
          (Next, user\<lparr>loc_login := Some (row_login row), loc_email := Some (row_email row)\<rparr>,
           st0))"

definition getOtherUsers :: "env \<Rightarrow> ctx \<Rightarrow> state \<Rightarrow> stage_result \<times> ctx \<times> state" where
  "getOtherUsers e c st =
     (case ctx_otherLocations c of
        None \<Rightarrow> (Thrown ''AssertionError'', c, st)
      | Some locs \<Rightarrow>
          (case forEachPipeline (fetchOtherUser e) locs st of
             (r, locs', st') \<Rightarrow> (r, c\<lparr>ctx_otherLocations := Some locs'\<rparr>, st')))"

definition sendMail ::
  "env \<Rightarrow> int \<Rightarrow> string \<Rightarrow> sshkey \<Rightarrow> string \<Rightarrow> sshkey list \<Rightarrow> ctx \<Rightarrow> state
     \<Rightarrow> stage_result \<times> ctx \<times> state" where
  "sendMail e when uuid key name otherKeys c st =
     (let (txt, st1) = render e ''added-key''
            [(''when'', DateV when), (''uuid'', Str uuid), (''key'', KeyV key),
             (''name'', Str name), (''keys'', KeyListV otherKeys),
             (''otherLocations'', ctx_otherLocations_val c), (''user'', ctx_user_val c)] st
      in case ctx_user c of
           None \<Rightarrow> (Thrown ''TypeError'', c, st1)
         | Some user \<Rightarrow>
            (let st2 = (if whitelisted e uuid \<and> \<not> disabled user
                        then userMail e (Addr (row_email user))
                               (''New SSH key added to account '' @ row_login user) txt st1
                        else st1);
                 st3 = (if privileged user then
                          (let (txt2, st') = render e ''oper-added-key''
                                 [(''when'', DateV when), (''uuid'', Str uuid), (''key'', KeyV key),
                                  (''name'', Str name), (''keys'', KeyListV otherKeys),
                                  (''user'', ctx_user_val c),
                                  (''otherLocations'', ctx_otherLocations_val c)] st2
                           in operatorMail e (''SSH key added to operator '' @ row_login user)
                                txt2 st')
                        else st2)
             in (Next, c, st3)))"

text \<open>
  The handler: the four stages on \<open>{}\<close>. Its final callback ignores the error, so
  the handler returns; an exception thrown in a stage is caught by nothing.
\<close>

datatype outcome = Returned | Uncaught string

definition addedKey_pipeline ::
  "env \<Rightarrow> int \<Rightarrow> string \<Rightarrow> sshkey \<Rightarrow> string \<Rightarrow> sshkey list \<Rightarrow> state
     \<Rightarrow> stage_result \<times> ctx \<times> state" where
  "addedKey_pipeline e when uuid key name otherKeys st =
     pipeline [getUser e uuid, findKeys e uuid key, getOtherUsers e,
               sendMail e when uuid key name otherKeys]
       \<lparr> ctx_user = None, ctx_otherLocations = None \<rparr> st"

definition addedKey ::
  "env \<Rightarrow> int \<Rightarrow> string \<Rightarrow> sshkey \<Rightarrow> string \<Rightarrow> sshkey list \<Rightarrow> state \<Rightarrow> outcome \<times> state" where
  "addedKey e when uuid key name otherKeys st =
     (case addedKey_pipeline e when uuid key name otherKeys st of
        (Thrown x, c, st') \<Rightarrow> (Uncaught x, st')
      | (r, c, st') \<Rightarrow> (Returned, st'))"

subsection \<open>The group handlers\<close>

text \<open>
  \<open>operatorAdded\<close> does not look at the error of its second lookup: on an error the
  rows are undefined, and the message is rendered and sent all the same.
\<close>

definition operatorAdded :: "env \<Rightarrow> int \<Rightarrow> string \<Rightarrow> string option \<Rightarrow> state \<Rightarrow> state" where
  "operatorAdded e when uuid grp st =
     (let g = (case grp of None \<Rightarrow> ''operator'' | Some g' \<Rightarrow> g');
          st0 = query_add (SelectUser uuid) st in
      case users_get (store e) uuid of
        Inl err \<Rightarrow> log_entry_add (LogError (Some err) ''failed reading from db'' []) st0
      | Inr None \<Rightarrow>
          log_entry_add (LogError None
            ''operator add from user %s, but they could not be found in the database'' [uuid]) st0
      | Inr (Some row) \<Rightarrow>
          (let st1 = query_add (SelectKeysByUuid uuid) st0;
               rows = (case keys_by_uuid (store e) uuid of
                         Inl s_err \<Rightarrow> Undefined
                       | Inr rs \<Rightarrow> KeyRowsV rs);
               (txt, st2) = render e ''new-operator''
                 [(''when'', DateV when), (''uuid'', Str uuid), (''user'', UserV row),
                  (''group'', Str g), (''keys'', rows)] st1
           in operatorMail e (''New operator account '' @ row_login row) txt st2))"

definition weirdGroupMemberAdded ::
  "env \<Rightarrow> int \<Rightarrow> string \<Rightarrow> string option \<Rightarrow> string \<Rightarrow> state \<Rightarrow> state" where
  "weirdGroupMemberAdded e when dn grp err st =
     (let g = (case grp of None \<Rightarrow> ''operators'' | Some g' \<Rightarrow> g');
          (txt, st1) = render e ''new-weird-group-member''
            [(''when'', DateV when), (''group'', Str g), (''dn'', Str dn), (''err'', Str err)] st
      in operatorMail e (''Unknown DN added to group '' @ g) txt st1)"

definition weirdGroupMemberRemoved ::
  "env \<Rightarrow> int \<Rightarrow> string \<Rightarrow> string option \<Rightarrow> string \<Rightarrow> state \<Rightarrow> state" where
  "weirdGroupMemberRemoved e when dn grp err st =
     (let g = (case grp of None \<Rightarrow> ''operators'' | Some g' \<Rightarrow> g');
          (txt, st1) = render e ''deleted-weird-group-member''
            [(''when'', DateV when), (''group'', Str g), (''dn'', Str dn), (''err'', Str err)] st
      in operatorMail e (''Unknown DN removed from group '' @ g) txt st1)"

definition readerAdded :: "env \<Rightarrow> int \<Rightarrow> string \<Rightarrow> state \<Rightarrow> state" where
  "readerAdded e when uuid st = operatorAdded e when uuid (Some ''reader'') st"

definition roleoperAdded :: "env \<Rightarrow> int \<Rightarrow> string \<Rightarrow> state \<Rightarrow> state" where
  "roleoperAdded e when uuid st = operatorAdded e when uuid (Some ''role-operator'') st"

definition operatorRemoved :: "env \<Rightarrow> int \<Rightarrow> string \<Rightarrow> string option \<Rightarrow> state \<Rightarrow> state" where
  "operatorRemoved e when uuid grp st =
     (let g = (case grp of None \<Rightarrow> ''operator'' | Some g' \<Rightarrow> g');
          st0 = query_add (SelectUser uuid) st in
      case users_get (store e) uuid of
        Inl err \<Rightarrow> log_entry_add (LogError (Some err) ''failed reading from db'' []) st0
      | Inr None \<Rightarrow>
          log_entry_add (LogError None
            ''operator del from user %s, but they could not be found in the database'' [uuid]) st0
      | Inr (Some row) \<Rightarrow>
          (let (txt, st1) = render e ''deleted-operator''
                 [(''when'', DateV when), (''uuid'', Str uuid), (''user'', UserV row),
                  (''group'', Str g)] st0
           in operatorMail e (''Demoted operator account '' @ row_login row) txt st1))"

definition readerRemoved :: "env \<Rightarrow> int \<Rightarrow> string \<Rightarrow> state \<Rightarrow> state" where
  "readerRemoved e when uuid st = operatorRemoved e when uuid (Some ''reader'') st"

definition roleoperRemoved :: "env \<Rightarrow> int \<Rightarrow> string \<Rightarrow> state \<Rightarrow> state" where
  "roleoperRemoved e when uuid st = operatorRemoved e when uuid (Some ''role-operator'') st"

subsection \<open>Notions used in the statements\<close>

text \<open>
  A helper invocation is user-facing when it is \<open>userMail\<close>. \<open>mail_of\<close> is the message
  a helper builds from its arguments.
\<close>

fun user_facing :: "helper_call \<Rightarrow> bool" where
  "user_facing (UserMail r s t) = True"
| "user_facing (OperatorMail s t) = False"

fun mail_of :: "env \<Rightarrow> helper_call \<Rightarrow> mail" where
  "mail_of e (OperatorMail s t) =
     \<lparr> mail_from = my_email (cfg e), mail_to = operators (cfg e),
       mail_subject = oper_prefix (cfg e) @ s, mail_text = t \<rparr>"
| "mail_of e (UserMail r s t) =
     \<lparr> mail_from = my_email (cfg e), mail_to = r,
       mail_subject = user_prefix (cfg e) @ s, mail_text = t \<rparr>"

text \<open>
  \<open>sent_follows e st st'\<close>: from \<open>st\<close> to \<open>st'\<close> the helper history has grown, and the
  transport has been handed the message of each new invocation, or nothing at all
  during initial synchronisation.
\<close>

definition sent_follows :: "env \<Rightarrow> state \<Rightarrow> state \<Rightarrow> bool" where
  "sent_follows e st st' \<longleftrightarrow>
     take (length (calls st)) (calls st') = calls st \<and>
     sent st' = sent st @ (if initialSync (cfg e) then []
                           else map (mail_of e) (drop (length (calls st)) (calls st')))"

text \<open>
  A lookup of a users row has found one; \<open>joined\<close> is a keys row with the login and
  email of its account filled in.
\<close>

definition found :: "db_error + user_row option \<Rightarrow> bool" where
  "found r = (case r of Inr (Some row) \<Rightarrow> True | _ \<Rightarrow> False)"

definition joined :: "env \<Rightarrow> location \<Rightarrow> location" where
  "joined e l =
     (case users_get (store e) (loc_uuid l) of
        Inr (Some row) \<Rightarrow> l\<lparr>loc_login := Some (row_login row), loc_email := Some (row_email row)\<rparr>
      | _ \<Rightarrow> l)"

text \<open>
  The public methods as one datatype: an event is one call of a method by the
  directory watcher, \<open>notify\<close> makes the call. The clock reading of
  \<open>ufdsKeyMismatch\<close> is part of its event.
\<close>

datatype event =
    UfdsKeyMismatch string sshkey int
  | ChangedLogin int string string string string
  | ChangedPassword int string string
  | ChangedEmail int string string string
  | DeletedUser int string user_row
  | AddedKey int string sshkey string "sshkey list"
  | DeletedKey int string sshkey string "sshkey list"
  | OperatorAdded int string "string option"
  | WeirdGroupMemberAdded int string "string option" string
  | WeirdGroupMemberRemoved int string "string option" string
  | ReaderAdded int string
  | RoleoperAdded int string
  | OperatorRemoved int string "string option"
  | ReaderRemoved int string
  | RoleoperRemoved int string

fun notify :: "env \<Rightarrow> event \<Rightarrow> state \<Rightarrow> outcome \<times> state" where
  "notify e (UfdsKeyMismatch expectedFp newKey now) st =
     (Returned, ufdsKeyMismatch e expectedFp newKey now st)"
| "notify e (ChangedLogin when uuid oldLogin newLogin email) st =
     (Returned, changedLogin e when uuid oldLogin newLogin email st)"
| "notify e (ChangedPassword when uuid email) st = (Returned, changedPassword e when uuid email st)"
| "notify e (ChangedEmail when uuid oldEmail newEmail) st =
     (Returned, changedEmail e when uuid oldEmail newEmail st)"
| "notify e (DeletedUser when uuid user) st = (Returned, deletedUser e when uuid user st)"
| "notify e (AddedKey when uuid key name otherKeys) st = addedKey e when uuid key name otherKeys st"
| "notify e (DeletedKey when uuid key name otherKeys) st =
     (Returned, deletedKey e when uuid key name otherKeys st)"
| "notify e (OperatorAdded when uuid grp) st = (Returned, operatorAdded e when uuid grp st)"
| "notify e (WeirdGroupMemberAdded when dn grp err) st =
     (Returned, weirdGroupMemberAdded e when dn grp err st)"
| "notify e (WeirdGroupMemberRemoved when dn grp err) st =
     (Returned, weirdGroupMemberRemoved e when dn grp err st)"
| "notify e (ReaderAdded when uuid) st = (Returned, readerAdded e when uuid st)"
| "notify e (RoleoperAdded when uuid) st = (Returned, roleoperAdded e when uuid st)"
| "notify e (OperatorRemoved when uuid grp) st = (Returned, operatorRemoved e when uuid grp st)"
| "notify e (ReaderRemoved when uuid) st = (Returned, readerRemoved e when uuid st)"
| "notify e (RoleoperRemoved when uuid) st = (Returned, roleoperRemoved e when uuid st)"

text \<open>
  The three lookups of the key-added handler all answer with rows: the subject's row,
  the keys rows of the other accounts, and a users row for each of those.
\<close>

definition lookups_complete :: "env \<Rightarrow> string \<Rightarrow> sshkey \<Rightarrow> bool" where
  "lookups_complete e uuid key \<longleftrightarrow>
     found (users_get (store e) uuid) \<and>
     (case keys_by_fingerprint (store e) (fingerprint_md5_hex key) uuid of
        Inl err \<Rightarrow> False
      | Inr locs \<Rightarrow> list_all (\<lambda>l. found (users_get (store e) (loc_uuid l))) locs)"

text \<open>
  The timestamp a key-mismatch event compares the clock with: the persisted one when
  the metadata row exists, the one in memory otherwise. An event is outside the
  window when there is none, or when it lies more than four hours back.
  \<open>mismatch_alert\<close> is the invocation of \<open>operatorMail\<close> that such an event makes.
\<close>

definition recorded_last :: "state \<Rightarrow> int option" where
  "recorded_last st =
     (case metadata st ''last_key_mismatch'' of
        None \<Rightarrow> lastKeyMismatch st
      | Some v \<Rightarrow> Some v)"

definition outside_window :: "int \<Rightarrow> state \<Rightarrow> bool" where
  "outside_window now st =
     (case recorded_last st of None \<Rightarrow> True | Some l \<Rightarrow> now - l > 4 * 3600 * 1000)"

definition mismatch_alert :: "env \<Rightarrow> string \<Rightarrow> sshkey \<Rightarrow> helper_call" where
  "mismatch_alert e expectedFp newKey =
     OperatorMail ''UFDS key mismatch''
       \<lparr> tpl_name = ''ufds-key-mismatch'',
         tpl_args = [(''expectedFp'', Str expectedFp),
                     (''newFp'', Str (fingerprint_default newKey)),
                     (''cloud_name'', Str (cloud_name (cfg e))),
                     (''company'', Str (company (cfg e)))] \<rparr>"

subsection \<open>A small deployment\<close>

text \<open>
  Three accounts, used where a statement is evaluated: alice is active and holds no
  role, bob is disabled and an operator, carol is active and a reader.
\<close>

definition demo_cfg :: config where
  "demo_cfg = \<lparr> cloud_name = ''dc1'', company = ''Example'', initialSync = False,
     my_email = ''alert@example.com'', operators = Addrs [''ops@example.com''],
     oper_prefix = ''[ops] '', user_prefix = ''[user] '', whitelist = Some [] \<rparr>"

definition demo_alice :: user_row where
  "demo_alice = \<lparr> row_uuid = ''U1'', row_login = ''alice'', row_email = ''alice@example.com'',
     row_status = ''active'', row_operator = 0, row_reader = 0, row_roleoper = 0 \<rparr>"

definition demo_bob :: user_row where
  "demo_bob = \<lparr> row_uuid = ''U2'', row_login = ''bob'', row_email = ''bob@example.com'',
     row_status = ''disabled'', row_operator = 1, row_reader = 0, row_roleoper = 0 \<rparr>"

definition demo_carol :: user_row where
  "demo_carol = \<lparr> row_uuid = ''U3'', row_login = ''carol'', row_email = ''carol@example.com'',
     row_status = ''active'', row_operator = 0, row_reader = 1, row_roleoper = 0 \<rparr>"

definition demo_users :: "string \<Rightarrow> db_error + user_row option" where
  "demo_users u =
     (if u = ''U1'' then Inr (Some demo_alice)
      else if u = ''U2'' then Inr (Some demo_bob)
      else if u = ''U3'' then Inr (Some demo_carol)
      else Inr None)"

definition demo_loc :: "string \<Rightarrow> location" where
  "demo_loc u = \<lparr> loc_uuid = u, loc_name = ''laptop'', loc_comment = ''work'',
     loc_login = None, loc_email = None \<rparr>"

definition demo_db :: db where
  "demo_db = \<lparr> users_get = demo_users,
     keys_by_fingerprint = (\<lambda>fp u. Inr [demo_loc ''U2'', demo_loc ''U3'']),
     keys_by_uuid = (\<lambda>u. Inr []),
     metadata_error = None \<rparr>"

definition demo_env :: env where
  "demo_env = \<lparr> cfg = demo_cfg, store = demo_db, mailer = (\<lambda>m. Inr ''250 OK'') \<rparr>"

definition demo_env_whitelist :: env where
  "demo_env_whitelist = demo_env\<lparr>cfg := demo_cfg\<lparr>whitelist := Some [''U9'']\<rparr>\<rparr>"

definition demo_env_sync :: env where
  "demo_env_sync = demo_env\<lparr>cfg := demo_cfg\<lparr>initialSync := True\<rparr>\<rparr>"

definition demo_key :: sshkey where
  "demo_key = \<lparr> fingerprint_default = ''SHA256:abc'', fingerprint_md5_hex = ''0a1b'' \<rparr>"

text \<open>
  Two stores that misbehave: one whose keys table cannot be read, one whose keys
  table names an account (U7) that has no users row.
\<close>

definition demo_env_keys_fail :: env where
  "demo_env_keys_fail = demo_env\<lparr>store := demo_db\<lparr>
     keys_by_fingerprint := (\<lambda>fp u. Inl ''SQLITE_BUSY''),
     keys_by_uuid := (\<lambda>u. Inl ''SQLITE_BUSY'')\<rparr>\<rparr>"

definition demo_env_orphan :: env where
  "demo_env_orphan = demo_env\<lparr>store := demo_db\<lparr>
     keys_by_fingerprint := (\<lambda>fp u. Inr [demo_loc ''U2'', demo_loc ''U7'', demo_loc ''U3''])\<rparr>\<rparr>"

text \<open>A store in which reading the users row of U2 fails.\<close>

definition demo_env_users_fail :: env where
  "demo_env_users_fail = demo_env\<lparr>store := demo_db\<lparr>
     users_get := (\<lambda>u. if u = ''U2'' then Inl ''SQLITE_BUSY'' else demo_users u)\<rparr>\<rparr>"

text \<open>A state whose metadata row holds an old timestamp.\<close>

definition demo_state_old_row :: state where
  "demo_state_old_row = init_state\<lparr>metadata := [''last_key_mismatch'' \<mapsto> 1000]\<rparr>"

section \<open>Properties\<close>

subsection \<open>What the helpers change\<close>

lemma render_fst:
  "fst (render e t a st) =
     \<lparr> tpl_name = t,
       tpl_args = AList.update ''company'' (Str (company (cfg e)))
                    (AList.update ''cloud_name'' (Str (cloud_name (cfg e))) a) \<rparr>"
  by (simp add: render_def Let_def)

lemma render_snd [simp]:
  "calls (snd (render e t a st)) = calls st"
  "sent (snd (render e t a st)) = sent st"
  "logs (snd (render e t a st)) = logs st"
  "queries (snd (render e t a st)) = queries st"
  "metadata (snd (render e t a st)) = metadata st"
  "lastKeyMismatch (snd (render e t a st)) = lastKeyMismatch st"
  by (simp_all add: render_def Let_def)

lemma operatorMail_fields [simp]:
  "calls (operatorMail e s t st) = calls st @ [OperatorMail s t]"
  "sent (operatorMail e s t st) =
     sent st @ (if initialSync (cfg e) then []
                else [\<lparr> mail_from = my_email (cfg e), mail_to = operators (cfg e),
                        mail_subject = oper_prefix (cfg e) @ s, mail_text = t \<rparr>])"
  "queries (operatorMail e s t st) = queries st"
  "metadata (operatorMail e s t st) = metadata st"
  "lastKeyMismatch (operatorMail e s t st) = lastKeyMismatch st"
  "tplCache (operatorMail e s t st) = tplCache st"
  by (simp_all add: operatorMail_def Let_def log_entry_add_def split: sum.splits)

lemma userMail_fields [simp]:
  "calls (userMail e r s t st) = calls st @ [UserMail r s t]"
  "sent (userMail e r s t st) =
     sent st @ (if initialSync (cfg e) then []
                else [\<lparr> mail_from = my_email (cfg e), mail_to = r,
                        mail_subject = user_prefix (cfg e) @ s, mail_text = t \<rparr>])"
  "queries (userMail e r s t st) = queries st"
  "metadata (userMail e r s t st) = metadata st"
  "lastKeyMismatch (userMail e r s t st) = lastKeyMismatch st"
  "tplCache (userMail e r s t st) = tplCache st"
  by (simp_all add: userMail_def Let_def log_entry_add_def split: sum.splits)

lemma add_fields [simp]:
  "calls (query_add q st) = calls st" "sent (query_add q st) = sent st"
  "logs (query_add q st) = logs st" "queries (query_add q st) = queries st @ [q]"
  "metadata (query_add q st) = metadata st" "lastKeyMismatch (query_add q st) = lastKeyMismatch st"
  "tplCache (query_add q st) = tplCache st"
  "calls (log_entry_add l st) = calls st" "sent (log_entry_add l st) = sent st"
  "logs (log_entry_add l st) = logs st @ [l]" "queries (log_entry_add l st) = queries st"
  "metadata (log_entry_add l st) = metadata st" "lastKeyMismatch (log_entry_add l st) = lastKeyMismatch st"
  "tplCache (log_entry_add l st) = tplCache st"
  by (simp_all add: query_add_def log_entry_add_def)

lemma changedPassword_calls:
  assumes "users_get (store e) uuid = Inr (Some row)"
  shows "calls (changedPassword e when uuid email st) =
     calls st
     @ (if whitelisted e uuid \<and> \<not> disabled row
        then [UserMail (Addr (row_email row)) ''Your password has been changed''
               (fst (render e ''pw-changed''
                  [(''when'', DateV when), (''uuid'', Str uuid), (''user'', UserV row)] st))]
        else [])
     @ (if privileged row
        then [OperatorMail (''Password changed for operator '' @ row_login row)
               (fst (render e ''oper-pw-changed''
                  [(''when'', DateV when), (''uuid'', Str uuid), (''user'', UserV row)] st))]
        else [])"
  using assms by (simp add: changedPassword_def Let_def case_prod_beta render_fst)

lemma whitelisted_absent_or_empty:
  "whitelist (cfg e) = None \<or> whitelist (cfg e) = Some [] \<Longrightarrow> whitelisted e uuid"
  by (auto simp: whitelisted_def)

subsection \<open>The whitelist test\<close>

lemma indexOf_ge: "- 1 \<le> indexOf xs x"
  by (induction xs) (auto simp: Let_def)

lemma indexOf_member: "indexOf xs x \<noteq> - 1 \<longleftrightarrow> x \<in> set xs"
proof (induction xs)
  case Nil
  show ?case by simp
next
  case (Cons y ys)
  have "indexOf ys x + 1 \<noteq> - 1" using indexOf_ge [of ys x] by arith
  with Cons show ?case by (auto simp: Let_def)
qed

lemma whitelisted_iff:
  "whitelisted e uuid \<longleftrightarrow>
     (case whitelist (cfg e) of None \<Rightarrow> True | Some wl \<Rightarrow> wl = [] \<or> uuid \<in> set wl)"
  by (cases "whitelist (cfg e)") (auto simp: whitelisted_def indexOf_member)

subsection \<open>The stages of addedKey\<close>

lemma fetchOtherUser_fields[simp]:
  "calls (snd (snd (fetchOtherUser e u st))) = calls st"
  "sent (snd (snd (fetchOtherUser e u st))) = sent st"
  "logs (snd (snd (fetchOtherUser e u st))) = logs st"
  "metadata (snd (snd (fetchOtherUser e u st))) = metadata st"
  "lastKeyMismatch (snd (snd (fetchOtherUser e u st))) = lastKeyMismatch st"
  "tplCache (snd (snd (fetchOtherUser e u st))) = tplCache st"
  "queries (snd (snd (fetchOtherUser e u st))) = queries st @ [SelectUser (loc_uuid u)]"
  by (simp_all add: fetchOtherUser_def Let_def split: sum.splits option.splits)

lemma forEach_fetch_unchanged:
  "calls (snd (snd (forEachPipeline (fetchOtherUser e) locs st))) = calls st \<and>
   sent (snd (snd (forEachPipeline (fetchOtherUser e) locs st))) = sent st \<and>
   logs (snd (snd (forEachPipeline (fetchOtherUser e) locs st))) = logs st \<and>
   metadata (snd (snd (forEachPipeline (fetchOtherUser e) locs st))) = metadata st \<and>
   lastKeyMismatch (snd (snd (forEachPipeline (fetchOtherUser e) locs st))) = lastKeyMismatch st \<and>
   tplCache (snd (snd (forEachPipeline (fetchOtherUser e) locs st))) = tplCache st"
proof (induction locs arbitrary: st)
  case Nil
  show ?case by simp
next
  case (Cons x xs)
  obtain r x' st' where f: "fetchOtherUser e x st = (r, x', st')"
    by (cases "fetchOtherUser e x st") auto
  have st': "calls st' = calls st" "sent st' = sent st" "logs st' = logs st"
    "metadata st' = metadata st" "lastKeyMismatch st' = lastKeyMismatch st"
    "tplCache st' = tplCache st"
    using fetchOtherUser_fields [of e x st] by (simp_all add: f)
  show ?case
  proof (cases r)
    case Next
    with f st' Cons.IH [of st'] show ?thesis
      by (simp add: case_prod_beta)
  next
    case (CbError err)
    with f st' show ?thesis by simp
  next
    case (Thrown x)
    with f st' show ?thesis by simp
  qed
qed

text \<open>The stage on a list: every lookup up to the first that finds no row.\<close>

lemma forEach_fetch_result:
  "forEachPipeline (fetchOtherUser e) locs st =
     (case dropWhile (\<lambda>l. found (users_get (store e) (loc_uuid l))) locs of
        [] \<Rightarrow> (Next, map (joined e) locs,
               st\<lparr>queries := queries st @ map (\<lambda>l. SelectUser (loc_uuid l)) locs\<rparr>)
      | x # post \<Rightarrow>
          ((case users_get (store e) (loc_uuid x) of
              Inl err \<Rightarrow> CbError err | Inr row \<Rightarrow> Thrown ''TypeError''),
           map (joined e) (takeWhile (\<lambda>l. found (users_get (store e) (loc_uuid l))) locs)
             @ x # post,
           st\<lparr>queries := queries st @ map (\<lambda>l. SelectUser (loc_uuid l))
                 (takeWhile (\<lambda>l. found (users_get (store e) (loc_uuid l))) locs @ [x])\<rparr>))"
proof (induction locs arbitrary: st)
  case Nil
  show ?case by simp
next
  case (Cons x xs)
  show ?case
  proof (cases "users_get (store e) (loc_uuid x)")
    case (Inl err)
    then show ?thesis
      by (simp add: fetchOtherUser_def found_def query_add_def)
  next
    case (Inr row)
    show ?thesis
    proof (cases row)
      case None
      with Inr show ?thesis
        by (simp add: fetchOtherUser_def found_def query_add_def)
    next
      case (Some r)
      with Inr have fx: "fetchOtherUser e x st =
          (Next, joined e x, query_add (SelectUser (loc_uuid x)) st)"
        by (simp add: fetchOtherUser_def joined_def)
      from Inr Some have fnd: "found (users_get (store e) (loc_uuid x))"
        by (simp add: found_def)
      show ?thesis
      proof (cases "dropWhile (\<lambda>l. found (users_get (store e) (loc_uuid l))) xs")
        case Nil
        then show ?thesis
          by (simp add: fx fnd Cons.IH query_add_def del: dropWhile_eq_Nil_conv)
      next
        case (Cons y ys)
        then show ?thesis
          by (simp add: fx fnd Cons.IH query_add_def)
      qed
    qed
  qed
qed

lemma addedKey_pipeline_user_error:
  assumes "users_get (store e) uuid = Inl err"
  shows "addedKey_pipeline e when uuid key name otherKeys st =
     (CbError err, \<lparr> ctx_user = None, ctx_otherLocations = None \<rparr>,
      log_entry_add (LogError (Some err) ''failed reading from db'' [])
        (query_add (SelectUser uuid) st))"
  using assms by (simp add: addedKey_pipeline_def getUser_def)

lemma addedKey_pipeline_user_missing:
  assumes "users_get (store e) uuid = Inr None"
  shows "addedKey_pipeline e when uuid key name otherKeys st =
     (CbError ''Not Found'', \<lparr> ctx_user = None, ctx_otherLocations = None \<rparr>,
      log_entry_add (LogError None
          ''added key to user %s, but they could not be found in the database'' [uuid])
        (query_add (SelectUser uuid) st))"
  using assms by (simp add: addedKey_pipeline_def getUser_def)

lemma addedKey_pipeline_keys_error:
  assumes "users_get (store e) uuid = Inr (Some row)"
    and "keys_by_fingerprint (store e) (fingerprint_md5_hex key) uuid = Inl err"
  shows "addedKey_pipeline e when uuid key name otherKeys st =
     (CbError err, \<lparr> ctx_user = Some row, ctx_otherLocations = None \<rparr>,
      query_add (SelectKeysByFingerprint (fingerprint_md5_hex key) uuid)
        (query_add (SelectUser uuid) st))"
  using assms by (simp add: addedKey_pipeline_def getUser_def findKeys_def)

lemma addedKey_pipeline_fetch:
  assumes "users_get (store e) uuid = Inr (Some row)"
    and "keys_by_fingerprint (store e) (fingerprint_md5_hex key) uuid = Inr locs"
  shows "addedKey_pipeline e when uuid key name otherKeys st =
     (case forEachPipeline (fetchOtherUser e) locs
             (query_add (SelectKeysByFingerprint (fingerprint_md5_hex key) uuid)
               (query_add (SelectUser uuid) st)) of
        (Next, locs', st') \<Rightarrow>
          sendMail e when uuid key name otherKeys
            \<lparr> ctx_user = Some row, ctx_otherLocations = Some locs' \<rparr> st'
      | (r, locs', st') \<Rightarrow> (r, \<lparr> ctx_user = Some row, ctx_otherLocations = Some locs' \<rparr>, st'))"
proof -
  have sm: "\<And>c s. ctx_user c \<noteq> None \<Longrightarrow>
      (case sendMail e when uuid key name otherKeys c s of
         (Next, c', s') \<Rightarrow> (Next, c', s') | (r, c', s') \<Rightarrow> (r, c', s'))
      = sendMail e when uuid key name otherKeys c s"
    by (auto simp: sendMail_def Let_def case_prod_beta)
  show ?thesis
    using assms
    by (simp add: addedKey_pipeline_def getUser_def findKeys_def getOtherUsers_def sm
        split: prod.splits stage_result.splits)
qed

lemma sendMail_result:
  assumes "ctx_user c = Some user"
  shows "fst (sendMail e when uuid key name otherKeys c st) = Next"
    and "fst (snd (sendMail e when uuid key name otherKeys c st)) = c"
    and "calls (snd (snd (sendMail e when uuid key name otherKeys c st))) =
      calls st
      @ (if whitelisted e uuid \<and> \<not> disabled user
         then [UserMail (Addr (row_email user)) (''New SSH key added to account '' @ row_login user)
                 (fst (render e ''added-key''
                    [(''when'', DateV when), (''uuid'', Str uuid), (''key'', KeyV key),
                     (''name'', Str name), (''keys'', KeyListV otherKeys),
                     (''otherLocations'', ctx_otherLocations_val c),
                     (''user'', ctx_user_val c)] st))]
         else [])
      @ (if privileged user
         then [OperatorMail (''SSH key added to operator '' @ row_login user)
                 (fst (render e ''oper-added-key''
                    [(''when'', DateV when), (''uuid'', Str uuid), (''key'', KeyV key),
                     (''name'', Str name), (''keys'', KeyListV otherKeys),
                     (''user'', ctx_user_val c),
                     (''otherLocations'', ctx_otherLocations_val c)] st))]
         else [])"
    and "initialSync (cfg e) \<Longrightarrow>
      sent (snd (snd (sendMail e when uuid key name otherKeys c st))) = sent st"
  using assms by (simp_all add: sendMail_def Let_def case_prod_beta render_fst)

subsection \<open>The transport sees what the helpers are given\<close>

lemma sent_follows_same:
  "calls st' = calls st \<Longrightarrow> sent st' = sent st \<Longrightarrow> sent_follows e st st'"
  by (simp add: sent_follows_def)

lemma sent_follows_trans:
  assumes "sent_follows e st st'" and "sent_follows e st' st''"
  shows "sent_follows e st st''"
proof -
  obtain cs where cs: "calls st' = calls st @ cs"
    using assms(1) by (metis append_take_drop_id sent_follows_def)
  obtain ds where ds: "calls st'' = calls st' @ ds"
    using assms(2) by (metis append_take_drop_id sent_follows_def)
  show ?thesis
    using assms by (simp add: sent_follows_def cs ds)
qed

lemma sent_follows_ufdsKeyMismatch_callback:
  "sent_follows e st (ufdsKeyMismatch_callback e fp k now answer st)"
  by (simp add: ufdsKeyMismatch_callback_def sent_follows_def Let_def case_prod_beta
      split: option.splits sum.splits)

lemma ufdsKeyMismatch_get_fields [simp]:
  "calls (snd (ufdsKeyMismatch_get e st)) = calls st"
  "sent (snd (ufdsKeyMismatch_get e st)) = sent st"
  "logs (snd (ufdsKeyMismatch_get e st)) = logs st"
  "metadata (snd (ufdsKeyMismatch_get e st)) = metadata st"
  "lastKeyMismatch (snd (ufdsKeyMismatch_get e st)) = lastKeyMismatch st"
  "queries (snd (ufdsKeyMismatch_get e st)) = queries st @ [SelectMetadata ''last_key_mismatch'']"
  by (simp_all add: ufdsKeyMismatch_get_def Let_def split: option.splits)

lemma sent_follows_ufdsKeyMismatch: "sent_follows e st (ufdsKeyMismatch e fp k now st)"
proof -
  have "sent_follows e st (snd (ufdsKeyMismatch_get e st))"
    by (simp add: sent_follows_same)
  then show ?thesis
    unfolding ufdsKeyMismatch_def Let_def case_prod_beta
    by (rule sent_follows_trans [OF _ sent_follows_ufdsKeyMismatch_callback])
qed

lemma sent_follows_changedLogin: "sent_follows e st (changedLogin e w u ol nl em st)"
  by (simp add: changedLogin_def sent_follows_def Let_def case_prod_beta
      split: option.splits sum.splits)

lemma sent_follows_changedPassword: "sent_follows e st (changedPassword e w u em st)"
  by (simp add: changedPassword_def sent_follows_def Let_def case_prod_beta
      split: option.splits sum.splits)

lemma sent_follows_changedEmail: "sent_follows e st (changedEmail e w u oe ne st)"
  by (simp add: changedEmail_def sent_follows_def Let_def case_prod_beta
      split: option.splits sum.splits)

lemma sent_follows_deletedUser: "sent_follows e st (deletedUser e w u usr st)"
  by (simp add: deletedUser_def sent_follows_def Let_def case_prod_beta)

lemma sent_follows_deletedKey: "sent_follows e st (deletedKey e w u k n ks st)"
  by (simp add: deletedKey_def sent_follows_def Let_def case_prod_beta
      split: option.splits sum.splits)

lemma sent_follows_operatorAdded: "sent_follows e st (operatorAdded e w u g st)"
  by (simp add: operatorAdded_def sent_follows_def Let_def case_prod_beta
      split: option.splits sum.splits)

lemma sent_follows_operatorRemoved: "sent_follows e st (operatorRemoved e w u g st)"
  by (simp add: operatorRemoved_def sent_follows_def Let_def case_prod_beta
      split: option.splits sum.splits)

lemma sent_follows_weirdGroupMemberAdded:
  "sent_follows e st (weirdGroupMemberAdded e w dn g err st)"
  by (simp add: weirdGroupMemberAdded_def sent_follows_def Let_def case_prod_beta)

lemma sent_follows_weirdGroupMemberRemoved:
  "sent_follows e st (weirdGroupMemberRemoved e w dn g err st)"
  by (simp add: weirdGroupMemberRemoved_def sent_follows_def Let_def case_prod_beta)

lemma sent_follows_sendMail:
  "sent_follows e st (snd (snd (sendMail e w u k n ks c st)))"
  by (simp add: sendMail_def sent_follows_def Let_def case_prod_beta split: option.splits)

lemma addedKey_state:
  "snd (addedKey e w u k n ks st) = snd (snd (addedKey_pipeline e w u k n ks st))"
  by (simp add: addedKey_def split: prod.splits stage_result.splits)

lemma sent_follows_addedKey_pipeline:
  "sent_follows e st (snd (snd (addedKey_pipeline e w u k n ks st)))"
proof (cases "users_get (store e) u")
  case (Inl err)
  then show ?thesis
    by (simp add: addedKey_pipeline_user_error sent_follows_def)
next
  case (Inr r)
  show ?thesis
  proof (cases r)
    case None
    with Inr show ?thesis
      by (simp add: addedKey_pipeline_user_missing sent_follows_def)
  next
    case (Some row)
    show ?thesis
    proof (cases "keys_by_fingerprint (store e) (fingerprint_md5_hex k) u")
      case (Inl err)
      with Inr Some show ?thesis
        by (simp add: addedKey_pipeline_keys_error sent_follows_def)
    next
      case inr: (Inr locs)
      let ?st1 = "query_add (SelectKeysByFingerprint (fingerprint_md5_hex k) u)
               (query_add (SelectUser u) st)"
      obtain r' locs' st' where f: "forEachPipeline (fetchOtherUser e) locs ?st1 = (r', locs', st')"
        by (cases "forEachPipeline (fetchOtherUser e) locs ?st1") auto
      have un: "calls st' = calls st" "sent st' = sent st"
        using forEach_fetch_unchanged [of e locs ?st1] by (simp_all add: f)
      have a: "sent_follows e st st'" using un by (rule sent_follows_same)
      show ?thesis
      proof (cases r')
        case Next
        have "sent_follows e st' (snd (snd (sendMail e w u k n ks
             \<lparr> ctx_user = Some row, ctx_otherLocations = Some locs' \<rparr> st')))"
          by (rule sent_follows_sendMail)
        with a have "sent_follows e st (snd (snd (sendMail e w u k n ks
             \<lparr> ctx_user = Some row, ctx_otherLocations = Some locs' \<rparr> st')))"
          by (rule sent_follows_trans)
        with Inr Some inr f Next show ?thesis
          by (simp add: addedKey_pipeline_fetch)
      next
        case (CbError err)
        with Inr Some inr f a show ?thesis
          by (simp add: addedKey_pipeline_fetch)
      next
        case (Thrown x)
        with Inr Some inr f a show ?thesis
          by (simp add: addedKey_pipeline_fetch)
      qed
    qed
  qed
qed

lemma sent_follows_notify: "sent_follows e st (snd (notify e ev st))"
proof (cases ev)
  case (AddedKey w u k n ks)
  then show ?thesis
    by (simp add: addedKey_state sent_follows_addedKey_pipeline)
qed (simp_all add: sent_follows_ufdsKeyMismatch sent_follows_changedLogin
      sent_follows_changedPassword sent_follows_changedEmail sent_follows_deletedUser
      sent_follows_deletedKey sent_follows_operatorAdded sent_follows_operatorRemoved
      sent_follows_weirdGroupMemberAdded sent_follows_weirdGroupMemberRemoved
      readerAdded_def roleoperAdded_def readerRemoved_def roleoperRemoved_def)

lemma notify_initialSync_sent:
  "initialSync (cfg e) \<Longrightarrow> sent (snd (notify e ev st)) = sent st"
  using sent_follows_notify [of e st ev] by (simp add: sent_follows_def)

lemma notify_all_initialSync_sent:
  "initialSync (cfg e) \<Longrightarrow> sent (fold (\<lambda>ev s. snd (notify e ev s)) evs st) = sent st"
  by (induction evs arbitrary: st) (simp_all add: notify_initialSync_sent)

subsection \<open>The helper invocations of each handler\<close>

lemma not_whitelisted:
  "whitelist (cfg e) = Some wl \<Longrightarrow> wl \<noteq> [] \<Longrightarrow> uuid \<notin> set wl \<Longrightarrow> \<not> whitelisted e uuid"
  by (simp add: whitelisted_iff)

lemma changedEmail_calls:
  assumes "users_get (store e) uuid = Inr (Some row)"
  shows "calls (changedEmail e when uuid oldEmail newEmail st) =
     calls st
     @ (if whitelisted e uuid \<and> \<not> disabled row
        then [UserMail (Addrs [oldEmail, newEmail]) ''Your email address has been changed''
               (fst (render e ''email-changed''
                  [(''when'', DateV when), (''uuid'', Str uuid), (''oldEmail'', Str oldEmail),
                   (''newEmail'', Str newEmail), (''user'', UserV row)] st))]
        else [])
     @ (if privileged row
        then [OperatorMail (''Operator email change for '' @ row_login row)
               (fst (render e ''oper-email-changed''
                  [(''when'', DateV when), (''uuid'', Str uuid), (''oldEmail'', Str oldEmail),
                   (''newEmail'', Str newEmail), (''user'', UserV row)] st))]
        else [])"
  using assms by (simp add: changedEmail_def Let_def case_prod_beta render_fst)

lemma deletedKey_calls:
  assumes "users_get (store e) uuid = Inr (Some row)"
  shows "calls (deletedKey e when uuid key name otherKeys st) =
     calls st
     @ (if whitelisted e uuid \<and> \<not> disabled row
        then [UserMail (Addr (row_email row)) (''SSH key deleted from account '' @ row_login row)
               (fst (render e ''deleted-key''
                  [(''when'', DateV when), (''uuid'', Str uuid), (''key'', KeyV key),
                   (''name'', Str name), (''keys'', KeyListV otherKeys), (''user'', UserV row)] st))]
        else [])
     @ (if privileged row
        then [OperatorMail (''SSH key deleted from operator '' @ row_login row)
               (fst (render e ''oper-deleted-key''
                  [(''when'', DateV when), (''uuid'', Str uuid), (''key'', KeyV key),
                   (''name'', Str name), (''keys'', KeyListV otherKeys), (''user'', UserV row)] st))]
        else [])"
  using assms by (simp add: deletedKey_def Let_def case_prod_beta render_fst)

lemma addedKey_pipeline_calls:
  "calls (snd (snd (addedKey_pipeline e when uuid key name otherKeys st))) =
     calls st @
     (case users_get (store e) uuid of
        Inr (Some row) \<Rightarrow>
          (case keys_by_fingerprint (store e) (fingerprint_md5_hex key) uuid of
             Inr locs \<Rightarrow>
               if list_all (\<lambda>l. found (users_get (store e) (loc_uuid l))) locs
               then (if whitelisted e uuid \<and> \<not> disabled row
                     then [UserMail (Addr (row_email row))
                             (''New SSH key added to account '' @ row_login row)
                             (fst (render e ''added-key''
                                [(''when'', DateV when), (''uuid'', Str uuid), (''key'', KeyV key),
                                 (''name'', Str name), (''keys'', KeyListV otherKeys),
                                 (''otherLocations'', LocationsV (map (joined e) locs)),
                                 (''user'', UserV row)] st))]
                     else [])
                  @ (if privileged row
                     then [OperatorMail (''SSH key added to operator '' @ row_login row)
                             (fst (render e ''oper-added-key''
                                [(''when'', DateV when), (''uuid'', Str uuid), (''key'', KeyV key),
                                 (''name'', Str name), (''keys'', KeyListV otherKeys),
                                 (''user'', UserV row),
                                 (''otherLocations'', LocationsV (map (joined e) locs))] st))]
                     else [])
               else []
           | Inl err \<Rightarrow> [])
      | _ \<Rightarrow> [])"
proof (cases "users_get (store e) uuid")
  case (Inl err)
  then show ?thesis by (simp add: addedKey_pipeline_user_error)
next
  case (Inr r)
  show ?thesis
  proof (cases r)
    case None
    with Inr show ?thesis by (simp add: addedKey_pipeline_user_missing)
  next
    case (Some row)
    show ?thesis
    proof (cases "keys_by_fingerprint (store e) (fingerprint_md5_hex key) uuid")
      case (Inl err)
      with Inr Some show ?thesis by (simp add: addedKey_pipeline_keys_error)
    next
      case inr: (Inr locs)
      show ?thesis
      proof (cases "dropWhile (\<lambda>l. found (users_get (store e) (loc_uuid l))) locs")
        case Nil
        then have all: "list_all (\<lambda>l. found (users_get (store e) (loc_uuid l))) locs"
          by (simp add: list_all_iff)
        from Nil Inr Some inr all show ?thesis
          by (simp add: addedKey_pipeline_fetch forEach_fetch_result sendMail_result
              render_fst ctx_user_val_def ctx_otherLocations_val_def
              del: dropWhile_eq_Nil_conv)
      next
        case (Cons x post)
        then have nall: "\<not> list_all (\<lambda>l. found (users_get (store e) (loc_uuid l))) locs"
          by (metis dropWhile_eq_Nil_conv list.distinct(1) list_all_iff)
        have nf: "\<not> found (users_get (store e) (loc_uuid x))"
          using Cons by (metis hd_dropWhile list.distinct(1) list.sel(1))
        from Cons Inr Some inr nall nf show ?thesis
          by (simp add: addedKey_pipeline_fetch forEach_fetch_result found_def
              split: sum.splits option.splits)
      qed
    qed
  qed
qed

lemma addedKey_calls:
  "calls (snd (addedKey e when uuid key name otherKeys st)) =
   calls (snd (snd (addedKey_pipeline e when uuid key name otherKeys st)))"
  by (simp add: addedKey_state)

subsection \<open>Rendering fills the template cache\<close>

lemma render_tplCache: "t \<in> set (tplCache (snd (render e t a st)))"
  by (simp add: render_def Let_def)

lemma render_tplCache_mono:
  "x \<in> set (tplCache st) \<Longrightarrow> x \<in> set (tplCache (snd (render e t a st)))"
  by (simp add: render_def Let_def)

lemma sendMail_queries [simp]:
  "queries (snd (snd (sendMail e w u k n ks c st))) = queries st"
  by (simp add: sendMail_def Let_def case_prod_beta split: option.splits)

lemma sendMail_composes:
  "ctx_user c = Some user \<Longrightarrow>
     ''added-key'' \<in> set (tplCache (snd (snd (sendMail e w u k n ks c st))))"
  by (simp add: sendMail_def Let_def case_prod_beta render_tplCache render_tplCache_mono)

lemma dropWhile_Cons_not_all:
  "dropWhile P xs = y # ys \<Longrightarrow> \<not> list_all P xs \<and> \<not> P y \<and> y \<in> set xs"
  by (metis dropWhile_eq_Nil_conv hd_dropWhile list.distinct(1) list.sel(1) list.set_intros(1)
      list_all_iff set_dropWhileD)

subsection \<open>ufdsKeyMismatch, step by step\<close>

lemma ufdsKeyMismatch_get_answer:
  "fst (ufdsKeyMismatch_get e st) =
     (case metadata_error (store e) of
        Some err \<Rightarrow> Inl err
      | None \<Rightarrow> Inr (metadata st ''last_key_mismatch''))"
  by (simp add: ufdsKeyMismatch_get_def Let_def split: option.splits)

lemma ufdsKeyMismatch_callback_row:
  "calls (ufdsKeyMismatch_callback e fp k now (Inr row) st) =
     calls st @
     (if (case (case row of None \<Rightarrow> lastKeyMismatch st | Some v \<Rightarrow> Some v) of
            None \<Rightarrow> True | Some l \<Rightarrow> now - l > 4 * 3600 * 1000)
      then [mismatch_alert e fp k] else [])"
  "metadata (ufdsKeyMismatch_callback e fp k now (Inr row) st)
     = (metadata st)(''last_key_mismatch'' \<mapsto> now)"
  "lastKeyMismatch (ufdsKeyMismatch_callback e fp k now (Inr row) st) = Some now"
  "queries (ufdsKeyMismatch_callback e fp k now (Inr row) st)
     = queries st @ [UpsertMetadata ''last_key_mismatch'' now]"
  by (simp_all add: ufdsKeyMismatch_callback_def Let_def case_prod_beta mismatch_alert_def
      render_fst split: option.splits)

lemma ufdsKeyMismatch_read_ok:
  assumes "metadata_error (store e) = None"
  shows "calls (ufdsKeyMismatch e fp k now st) =
           calls st @ (if outside_window now st then [mismatch_alert e fp k] else [])"
    and "metadata (ufdsKeyMismatch e fp k now st) = (metadata st)(''last_key_mismatch'' \<mapsto> now)"
    and "lastKeyMismatch (ufdsKeyMismatch e fp k now st) = Some now"
    and "queries (ufdsKeyMismatch e fp k now st) =
           queries st @ [SelectMetadata ''last_key_mismatch'',
                         UpsertMetadata ''last_key_mismatch'' now]"
proof -
  have g: "ufdsKeyMismatch e fp k now st =
      ufdsKeyMismatch_callback e fp k now (Inr (metadata st ''last_key_mismatch''))
        (snd (ufdsKeyMismatch_get e st))"
    using assms by (simp add: ufdsKeyMismatch_def case_prod_beta ufdsKeyMismatch_get_answer)
  show "calls (ufdsKeyMismatch e fp k now st) =
           calls st @ (if outside_window now st then [mismatch_alert e fp k] else [])"
    by (simp add: g ufdsKeyMismatch_callback_row outside_window_def recorded_last_def
        split: option.splits)
  show "metadata (ufdsKeyMismatch e fp k now st) = (metadata st)(''last_key_mismatch'' \<mapsto> now)"
    by (simp add: g ufdsKeyMismatch_callback_row)
  show "lastKeyMismatch (ufdsKeyMismatch e fp k now st) = Some now"
    by (simp add: g ufdsKeyMismatch_callback_row)
  show "queries (ufdsKeyMismatch e fp k now st) =
           queries st @ [SelectMetadata ''last_key_mismatch'',
                         UpsertMetadata ''last_key_mismatch'' now]"
    by (simp add: g ufdsKeyMismatch_callback_row)
qed

lemma ufdsKeyMismatch_recorded:
  assumes "metadata_error (store e) = None"
  shows "recorded_last (ufdsKeyMismatch e fp k now st) = Some now"
  using assms by (simp add: recorded_last_def ufdsKeyMismatch_read_ok)

lemma ufdsKeyMismatch_read_error:
  assumes "metadata_error (store e) = Some err"
  shows "ufdsKeyMismatch e fp k now st =
     log_entry_add (LogError (Some err) ''failed reading from db'' [])
       (query_add (SelectMetadata ''last_key_mismatch'') st)"
  using assms
  by (simp add: ufdsKeyMismatch_def ufdsKeyMismatch_get_def ufdsKeyMismatch_callback_def)

text \<open>
  Overlapping calls: the second callback works on the row as it was before the first
  callback wrote. When that row exists, the second call alerts whenever its clock is
  more than four hours past that old row, however close the two calls are; when
  there was no row, the timestamp in memory stands in and the second call compares
  with the first.
\<close>

lemma ufdsKeyMismatch_overlapping_calls:
  assumes "metadata_error (store e) = None"
  shows "calls (ufdsKeyMismatch_overlapping e fp1 k1 t1 fp2 k2 t2 st) =
     calls st
     @ (if outside_window t1 st then [mismatch_alert e fp1 k1] else [])
     @ (if (case metadata st ''last_key_mismatch'' of
              None \<Rightarrow> t2 - t1 > 4 * 3600 * 1000
            | Some v \<Rightarrow> t2 - v > 4 * 3600 * 1000)
        then [mismatch_alert e fp2 k2] else [])"
proof -
  have a: "fst (ufdsKeyMismatch_get e st) = Inr (metadata st ''last_key_mismatch'')"
    "fst (ufdsKeyMismatch_get e (snd (ufdsKeyMismatch_get e st)))
       = Inr (metadata st ''last_key_mismatch'')"
    using assms by (simp_all add: ufdsKeyMismatch_get_answer)
  show ?thesis
    by (simp add: ufdsKeyMismatch_overlapping_def case_prod_beta a
        ufdsKeyMismatch_callback_row outside_window_def recorded_last_def
        split: option.splits)
qed

text \<open>
  With an old row of 1000 and two overlapping calls whose callbacks run at 20000000
  and 20001000, both calls alert.
\<close>

lemma ufdsKeyMismatch_overlapping_old_row:
  "\<bar>20001000 - 20000000\<bar> < (4 * 3600 * 1000 :: int)
   \<and> outside_window 20000000 demo_state_old_row
   \<and> calls (ufdsKeyMismatch_overlapping demo_env ''SHA256:e1'' demo_key 20000000
        ''SHA256:e2'' demo_key 20001000 demo_state_old_row)
     = [mismatch_alert demo_env ''SHA256:e1'' demo_key,
        mismatch_alert demo_env ''SHA256:e2'' demo_key]"
  by (simp add: ufdsKeyMismatch_overlapping_def ufdsKeyMismatch_get_def
      ufdsKeyMismatch_callback_def operatorMail_def render_def mismatch_alert_def
      outside_window_def recorded_last_def demo_state_old_row_def
      demo_env_def demo_db_def demo_cfg_def demo_key_def init_state_def
      Let_def case_prod_beta query_add_def log_entry_add_def)

lemma sent_follows_ufdsKeyMismatch_overlapping:
  "sent_follows e st (ufdsKeyMismatch_overlapping e fp1 k1 t1 fp2 k2 t2 st)"
proof -
  let ?s1 = "snd (ufdsKeyMismatch_get e st)"
  let ?s2 = "snd (ufdsKeyMismatch_get e ?s1)"
  have "sent_follows e st ?s2"
    by (simp add: sent_follows_same)
  then have "sent_follows e st
      (ufdsKeyMismatch_callback e fp1 k1 t1 (fst (ufdsKeyMismatch_get e st)) ?s2)"
    by (rule sent_follows_trans [OF _ sent_follows_ufdsKeyMismatch_callback])
  then show ?thesis
    unfolding ufdsKeyMismatch_overlapping_def Let_def case_prod_beta
    by (rule sent_follows_trans [OF _ sent_follows_ufdsKeyMismatch_callback])
qed

lemma ufdsKeyMismatch_overlapping_initialSync:
  "initialSync (cfg e) \<Longrightarrow>
     sent (ufdsKeyMismatch_overlapping e fp1 k1 t1 fp2 k2 t2 st) = sent st"
  using sent_follows_ufdsKeyMismatch_overlapping [of e st fp1 k1 t1 fp2 k2 t2]
  by (simp add: sent_follows_def)

subsection \<open>Lookups that fail\<close>

text \<open>
  A query error of the first lookup is logged once and ends the handler. A query
  error of a later lookup is not logged; in \<open>operatorAdded\<close> it does not even end
  the handler.
\<close>

lemma subject_lookup_error_logged_once:
  assumes "users_get (store e) uuid = Inl err"
  shows "changedLogin e when uuid oldLogin newLogin email st =
           log_entry_add (LogError (Some err) ''failed reading from db'' [])
             (query_add (SelectUser uuid) st)"
    and "changedPassword e when uuid email st =
           log_entry_add (LogError (Some err) ''failed reading from db'' [])
             (query_add (SelectUser uuid) st)"
    and "changedEmail e when uuid oldEmail newEmail st =
           log_entry_add (LogError (Some err) ''failed reading from db'' [])
             (query_add (SelectUser uuid) st)"
    and "deletedKey e when uuid key name otherKeys st =
           log_entry_add (LogError (Some err) ''failed reading from db'' [])
             (query_add (SelectUser uuid) st)"
    and "operatorAdded e when uuid grp st =
           log_entry_add (LogError (Some err) ''failed reading from db'' [])
             (query_add (SelectUser uuid) st)"
    and "operatorRemoved e when uuid grp st =
           log_entry_add (LogError (Some err) ''failed reading from db'' [])
             (query_add (SelectUser uuid) st)"
    and "addedKey e when uuid key name otherKeys st =
           (Returned, log_entry_add (LogError (Some err) ''failed reading from db'' [])
             (query_add (SelectUser uuid) st))"
  using assms
  by (simp_all add: changedLogin_def changedPassword_def changedEmail_def deletedKey_def
      operatorAdded_def operatorRemoved_def addedKey_def addedKey_pipeline_user_error)

lemma later_lookup_error_unlogged:
  assumes "users_get (store e) uuid = Inr (Some row)"
  shows "keys_by_fingerprint (store e) (fingerprint_md5_hex key) uuid = Inl err \<Longrightarrow>
           logs (snd (addedKey e when uuid key name otherKeys st)) = logs st"
    and "keys_by_uuid (store e) uuid = Inl err \<Longrightarrow>
           calls (operatorAdded e when uuid grp st) =
             calls st @ [OperatorMail (''New operator account '' @ row_login row)
               \<lparr> tpl_name = ''new-operator'',
                 tpl_args = [(''when'', DateV when), (''uuid'', Str uuid), (''user'', UserV row),
                   (''group'', Str (case grp of None \<Rightarrow> ''operator'' | Some g \<Rightarrow> g)),
                   (''keys'', Undefined),
                   (''cloud_name'', Str (cloud_name (cfg e))),
                   (''company'', Str (company (cfg e)))] \<rparr>]"
  using assms
  by (simp_all add: addedKey_state addedKey_pipeline_keys_error operatorAdded_def Let_def
      case_prod_beta render_fst)

subsection \<open>Two key mismatches within four hours\<close>

text \<open>
  C1, as stated, fails: of three events one hour apart the second and the third lie
  less than four hours apart, and neither of the two sends an alert, since the first
  event has already recorded a timestamp.
\<close>

theorem key_mismatch_pair_counterexample:
  "\<bar>7200000 - 3600000\<bar> < (4 * 3600 * 1000 :: int)
   \<and> metadata_error (store demo_env) = None \<and> \<not> initialSync (cfg demo_env)
   \<and> calls (ufdsKeyMismatch demo_env ''SHA256:xyz'' demo_key 0 init_state)
     = [mismatch_alert demo_env ''SHA256:xyz'' demo_key]
   \<and> calls (ufdsKeyMismatch demo_env ''SHA256:xyz'' demo_key 7200000
        (ufdsKeyMismatch demo_env ''SHA256:xyz'' demo_key 3600000
          (ufdsKeyMismatch demo_env ''SHA256:xyz'' demo_key 0 init_state)))
     = calls (ufdsKeyMismatch demo_env ''SHA256:xyz'' demo_key 0 init_state)
   \<and> sent (ufdsKeyMismatch demo_env ''SHA256:xyz'' demo_key 7200000
        (ufdsKeyMismatch demo_env ''SHA256:xyz'' demo_key 3600000
          (ufdsKeyMismatch demo_env ''SHA256:xyz'' demo_key 0 init_state)))
     = sent (ufdsKeyMismatch demo_env ''SHA256:xyz'' demo_key 0 init_state)"
  by (simp add: ufdsKeyMismatch_def ufdsKeyMismatch_get_def ufdsKeyMismatch_callback_def
      operatorMail_def render_def mismatch_alert_def
      demo_env_def demo_db_def demo_cfg_def demo_key_def init_state_def
      Let_def case_prod_beta query_add_def log_entry_add_def)

text \<open>
  C1, amended. Two key-mismatch events less than four hours apart that are handled
  one after the other, the second call being issued once the callback of the first
  has run, both reading the metadata without error, the first of them outside the
  window (no timestamp recorded, or one more than four hours before it): exactly one
  alert is requested for the pair, by the first event. Every callback whose read
  succeeded writes its own time under last_key_mismatch, suppressed or not, whatever
  row it was given. Calls that overlap are left out: there the second callback works
  on the row as it was before the first wrote, and both calls can alert
  (\<open>ufdsKeyMismatch_overlapping_calls\<close>).
\<close>

theorem key_mismatch_pair_within_window:
  assumes "metadata_error (store e) = None"
    and "\<bar>t2 - t1\<bar> < 4 * 3600 * 1000"
    and "outside_window t1 st"
  shows "calls (ufdsKeyMismatch e fp2 k2 t2 (ufdsKeyMismatch e fp1 k1 t1 st))
           = calls st @ [mismatch_alert e fp1 k1]
       \<and> sent_follows e st (ufdsKeyMismatch e fp2 k2 t2 (ufdsKeyMismatch e fp1 k1 t1 st))
       \<and> metadata (ufdsKeyMismatch e fp1 k1 t1 st) ''last_key_mismatch'' = Some t1
       \<and> metadata (ufdsKeyMismatch e fp2 k2 t2 (ufdsKeyMismatch e fp1 k1 t1 st))
            ''last_key_mismatch'' = Some t2
       \<and> (\<forall>s now fp k. metadata (ufdsKeyMismatch e fp k now s) ''last_key_mismatch'' = Some now
            \<and> UpsertMetadata ''last_key_mismatch'' now \<in> set (queries (ufdsKeyMismatch e fp k now s)))
       \<and> (\<forall>s now fp k row.
            metadata (ufdsKeyMismatch_callback e fp k now (Inr row) s) ''last_key_mismatch''
              = Some now
            \<and> UpsertMetadata ''last_key_mismatch'' now
                \<in> set (queries (ufdsKeyMismatch_callback e fp k now (Inr row) s)))"
proof -
  have "\<not> outside_window t2 (ufdsKeyMismatch e fp1 k1 t1 st)"
    using assms(1,2) by (simp add: outside_window_def ufdsKeyMismatch_recorded)
  then show ?thesis
    using assms(1,3)
    by (simp add: ufdsKeyMismatch_read_ok ufdsKeyMismatch_callback_row
        sent_follows_trans [OF sent_follows_ufdsKeyMismatch sent_follows_ufdsKeyMismatch])
qed

theorem key_mismatch_pair_within_window_witness:
  "calls (ufdsKeyMismatch demo_env ''SHA256:xyz'' demo_key 3601000
        (ufdsKeyMismatch demo_env ''SHA256:xyz'' demo_key 1000 init_state))
     = [mismatch_alert demo_env ''SHA256:xyz'' demo_key]
   \<and> metadata (ufdsKeyMismatch demo_env ''SHA256:xyz'' demo_key 1000 init_state)
        ''last_key_mismatch'' = Some 1000
   \<and> metadata (ufdsKeyMismatch demo_env ''SHA256:xyz'' demo_key 3601000
        (ufdsKeyMismatch demo_env ''SHA256:xyz'' demo_key 1000 init_state))
        ''last_key_mismatch'' = Some 3601000"
proof -
  have h: "metadata_error (store demo_env) = None"
    by (simp add: demo_env_def demo_db_def)
  have w: "\<bar>3601000 - 1000\<bar> < (4 * 3600 * 1000 :: int)" by simp
  have o: "outside_window 1000 init_state"
    by (simp add: outside_window_def recorded_last_def init_state_def)
  show ?thesis
    using key_mismatch_pair_within_window [OF h w o, of "''SHA256:xyz''" demo_key
        "''SHA256:xyz''" demo_key]
    by (simp add: init_state_def)
qed

subsection \<open>Key mismatches outside the window\<close>

text \<open>
  C2, as stated, fails: of events at 0, at one hour and at five hours and one
  millisecond, the last two lie more than four hours apart, and the first of the two
  sends no alert, coming one hour after the event before it.
\<close>

theorem key_mismatch_far_pair_counterexample:
  "18000001 - 3600000 > (4 * 3600 * 1000 :: int)
   \<and> metadata_error (store demo_env) = None \<and> \<not> initialSync (cfg demo_env)
   \<and> calls (ufdsKeyMismatch demo_env ''SHA256:e0'' demo_key 0 init_state)
     = [mismatch_alert demo_env ''SHA256:e0'' demo_key]
   \<and> calls (ufdsKeyMismatch demo_env ''SHA256:e1'' demo_key 3600000
        (ufdsKeyMismatch demo_env ''SHA256:e0'' demo_key 0 init_state))
     = [mismatch_alert demo_env ''SHA256:e0'' demo_key]
   \<and> calls (ufdsKeyMismatch demo_env ''SHA256:e2'' demo_key 18000001
        (ufdsKeyMismatch demo_env ''SHA256:e1'' demo_key 3600000
          (ufdsKeyMismatch demo_env ''SHA256:e0'' demo_key 0 init_state)))
     = [mismatch_alert demo_env ''SHA256:e0'' demo_key,
        mismatch_alert demo_env ''SHA256:e2'' demo_key]"
  by (simp add: ufdsKeyMismatch_def ufdsKeyMismatch_get_def ufdsKeyMismatch_callback_def
      operatorMail_def render_def mismatch_alert_def
      demo_env_def demo_db_def demo_cfg_def demo_key_def init_state_def
      Let_def case_prod_beta query_add_def log_entry_add_def)

text \<open>
  C2, amended. A key-mismatch event whose metadata read succeeds requests an operator
  alert when it finds no timestamp recorded, and when its clock exceeds the recorded
  timestamp it finds by more than 4*3600*1000 ms; this holds of every callback,
  whatever row it was given. Of two events more than four hours apart that are
  handled one after the other, the second call being issued once the callback of the
  first has run, the second requests an alert; both do when the first is outside the
  window itself. The transport is handed the messages of these requests.
\<close>

theorem key_mismatch_alert_outside_window:
  assumes "metadata_error (store e) = None"
  shows "(recorded_last st = None \<longrightarrow>
            calls (ufdsKeyMismatch e fp k now st) = calls st @ [mismatch_alert e fp k])
       \<and> (\<forall>l. recorded_last st = Some l \<and> now - l > 4 * 3600 * 1000 \<longrightarrow>
            calls (ufdsKeyMismatch e fp k now st) = calls st @ [mismatch_alert e fp k])
       \<and> (t2 - t1 > 4 * 3600 * 1000 \<longrightarrow>
            calls (ufdsKeyMismatch e fp2 k2 t2 (ufdsKeyMismatch e fp1 k1 t1 st))
              = calls (ufdsKeyMismatch e fp1 k1 t1 st) @ [mismatch_alert e fp2 k2])
       \<and> (outside_window t1 st \<and> t2 - t1 > 4 * 3600 * 1000 \<longrightarrow>
            calls (ufdsKeyMismatch e fp2 k2 t2 (ufdsKeyMismatch e fp1 k1 t1 st))
              = calls st @ [mismatch_alert e fp1 k1, mismatch_alert e fp2 k2])
       \<and> (\<forall>s. lastKeyMismatch s = None \<longrightarrow>
            calls (ufdsKeyMismatch_callback e fp k now (Inr None) s)
              = calls s @ [mismatch_alert e fp k])
       \<and> (\<forall>s l. lastKeyMismatch s = Some l \<and> now - l > 4 * 3600 * 1000 \<longrightarrow>
            calls (ufdsKeyMismatch_callback e fp k now (Inr None) s)
              = calls s @ [mismatch_alert e fp k])
       \<and> (\<forall>s v. now - v > 4 * 3600 * 1000 \<longrightarrow>
            calls (ufdsKeyMismatch_callback e fp k now (Inr (Some v)) s)
              = calls s @ [mismatch_alert e fp k])
       \<and> sent_follows e st (ufdsKeyMismatch e fp k now st)
       \<and> sent_follows e st (ufdsKeyMismatch e fp2 k2 t2 (ufdsKeyMismatch e fp1 k1 t1 st))"
proof (intro conjI impI allI)
  assume "recorded_last st = None"
  then show "calls (ufdsKeyMismatch e fp k now st) = calls st @ [mismatch_alert e fp k]"
    using assms by (simp add: ufdsKeyMismatch_read_ok outside_window_def)
next
  fix l
  assume "recorded_last st = Some l \<and> now - l > 4 * 3600 * 1000"
  then show "calls (ufdsKeyMismatch e fp k now st) = calls st @ [mismatch_alert e fp k]"
    using assms by (simp add: ufdsKeyMismatch_read_ok outside_window_def)
next
  assume a: "t2 - t1 > 4 * 3600 * 1000"
  then have "outside_window t2 (ufdsKeyMismatch e fp1 k1 t1 st)"
    using assms by (simp add: outside_window_def ufdsKeyMismatch_recorded)
  then show "calls (ufdsKeyMismatch e fp2 k2 t2 (ufdsKeyMismatch e fp1 k1 t1 st))
              = calls (ufdsKeyMismatch e fp1 k1 t1 st) @ [mismatch_alert e fp2 k2]"
    using assms by (simp add: ufdsKeyMismatch_read_ok)
next
  assume a: "outside_window t1 st \<and> t2 - t1 > 4 * 3600 * 1000"
  have "outside_window t2 (ufdsKeyMismatch e fp1 k1 t1 st)"
    using a assms by (simp add: outside_window_def ufdsKeyMismatch_recorded)
  with a show "calls (ufdsKeyMismatch e fp2 k2 t2 (ufdsKeyMismatch e fp1 k1 t1 st))
              = calls st @ [mismatch_alert e fp1 k1, mismatch_alert e fp2 k2]"
    using assms by (simp add: ufdsKeyMismatch_read_ok)
next
  fix s :: state
  assume "lastKeyMismatch s = None"
  then show "calls (ufdsKeyMismatch_callback e fp k now (Inr None) s)
              = calls s @ [mismatch_alert e fp k]"
    by (simp add: ufdsKeyMismatch_callback_row)
next
  fix s :: state and l
  assume "lastKeyMismatch s = Some l \<and> now - l > 4 * 3600 * 1000"
  then show "calls (ufdsKeyMismatch_callback e fp k now (Inr None) s)
              = calls s @ [mismatch_alert e fp k]"
    by (simp add: ufdsKeyMismatch_callback_row)
next
  fix s :: state and v
  assume "now - v > 4 * 3600 * 1000"
  then show "calls (ufdsKeyMismatch_callback e fp k now (Inr (Some v)) s)
              = calls s @ [mismatch_alert e fp k]"
    by (simp add: ufdsKeyMismatch_callback_row)
next
  show "sent_follows e st (ufdsKeyMismatch e fp k now st)"
    by (rule sent_follows_ufdsKeyMismatch)
  show "sent_follows e st (ufdsKeyMismatch e fp2 k2 t2 (ufdsKeyMismatch e fp1 k1 t1 st))"
    by (rule sent_follows_trans [OF sent_follows_ufdsKeyMismatch sent_follows_ufdsKeyMismatch])
qed

theorem key_mismatch_alert_outside_window_witness:
  "calls (ufdsKeyMismatch demo_env ''SHA256:e1'' demo_key 1000 init_state)
     = [mismatch_alert demo_env ''SHA256:e1'' demo_key]
   \<and> recorded_last (ufdsKeyMismatch demo_env ''SHA256:e1'' demo_key 1000 init_state) = Some 1000
   \<and> calls (ufdsKeyMismatch demo_env ''SHA256:e2'' demo_key 14401001
        (ufdsKeyMismatch demo_env ''SHA256:e1'' demo_key 1000 init_state))
     = [mismatch_alert demo_env ''SHA256:e1'' demo_key,
        mismatch_alert demo_env ''SHA256:e2'' demo_key]
   \<and> length (sent (ufdsKeyMismatch demo_env ''SHA256:e2'' demo_key 14401001
        (ufdsKeyMismatch demo_env ''SHA256:e1'' demo_key 1000 init_state))) = 2
   \<and> calls (ufdsKeyMismatch_callback demo_env ''SHA256:e2'' demo_key 14401001 (Inr None)
        init_state) = [mismatch_alert demo_env ''SHA256:e2'' demo_key]
   \<and> calls (ufdsKeyMismatch_callback demo_env ''SHA256:e2'' demo_key 14401001 (Inr None)
        (init_state\<lparr>lastKeyMismatch := Some 1000\<rparr>))
       = [mismatch_alert demo_env ''SHA256:e2'' demo_key]
   \<and> calls (ufdsKeyMismatch_callback demo_env ''SHA256:e2'' demo_key 14401001
        (Inr (Some 1000)) init_state) = [mismatch_alert demo_env ''SHA256:e2'' demo_key]"
proof -
  let ?s1 = "ufdsKeyMismatch demo_env ''SHA256:e1'' demo_key 1000 init_state"
  have h: "metadata_error (store demo_env) = None"
    by (simp add: demo_env_def demo_db_def)
  have r0: "recorded_last init_state = None"
    by (simp add: recorded_last_def init_state_def)
  have r1: "recorded_last ?s1 = Some 1000"
    using h by (rule ufdsKeyMismatch_recorded)
  have o: "outside_window 1000 init_state"
    by (simp add: outside_window_def r0)
  have i: "\<not> initialSync (cfg demo_env)"
    by (simp add: demo_env_def demo_cfg_def)
  have d: "(14401001 :: int) - 1000 > 4 * 3600 * 1000" by simp
  note t0 = key_mismatch_alert_outside_window [OF h, where st = init_state
      and fp = "''SHA256:e1''" and k = demo_key and now = 1000
      and ?t1.0 = 1000 and ?t2.0 = 14401001
      and ?fp1.0 = "''SHA256:e1''" and ?k1.0 = demo_key
      and ?fp2.0 = "''SHA256:e2''" and ?k2.0 = demo_key]
  note t1 = key_mismatch_alert_outside_window [OF h, where st = ?s1
      and fp = "''SHA256:e2''" and k = demo_key and now = 14401001]
  have ci: "calls init_state = []" by (simp add: init_state_def)
  from t0 [THEN conjunct1] r0
  have a: "calls ?s1 = [mismatch_alert demo_env ''SHA256:e1'' demo_key]"
    by (simp add: ci)
  from t0 [THEN conjunct2, THEN conjunct2, THEN conjunct2, THEN conjunct1] o d
  have b: "calls (ufdsKeyMismatch demo_env ''SHA256:e2'' demo_key 14401001 ?s1)
     = [mismatch_alert demo_env ''SHA256:e1'' demo_key,
        mismatch_alert demo_env ''SHA256:e2'' demo_key]"
    by (simp add: ci)
  from t0 [THEN conjunct2, THEN conjunct2, THEN conjunct1] d
  have b2: "calls (ufdsKeyMismatch demo_env ''SHA256:e2'' demo_key 14401001 ?s1)
     = calls ?s1 @ [mismatch_alert demo_env ''SHA256:e2'' demo_key]"
    by simp
  from t1 [THEN conjunct2, THEN conjunct1] r1 d
  have b3: "calls (ufdsKeyMismatch demo_env ''SHA256:e2'' demo_key 14401001 ?s1)
     = calls ?s1 @ [mismatch_alert demo_env ''SHA256:e2'' demo_key]"
    by simp
  from t0 have c: "sent_follows demo_env init_state
      (ufdsKeyMismatch demo_env ''SHA256:e2'' demo_key 14401001 ?s1)"
    by blast
  from c b i have e: "length (sent (ufdsKeyMismatch demo_env ''SHA256:e2'' demo_key 14401001
      ?s1)) = 2"
    by (simp add: sent_follows_def init_state_def)
  have l0: "lastKeyMismatch init_state = None"
    "lastKeyMismatch (init_state\<lparr>lastKeyMismatch := Some 1000\<rparr>) = Some 1000"
    by (simp_all add: init_state_def)
  from t1 l0 d have f1: "calls (ufdsKeyMismatch_callback demo_env ''SHA256:e2'' demo_key
      14401001 (Inr None) init_state)
      = calls init_state @ [mismatch_alert demo_env ''SHA256:e2'' demo_key]"
    by blast
  from t1 l0 d have f2: "calls (ufdsKeyMismatch_callback demo_env ''SHA256:e2'' demo_key
      14401001 (Inr None) (init_state\<lparr>lastKeyMismatch := Some 1000\<rparr>))
      = calls (init_state\<lparr>lastKeyMismatch := Some 1000\<rparr>)
        @ [mismatch_alert demo_env ''SHA256:e2'' demo_key]"
    by blast
  from t1 d have f3: "calls (ufdsKeyMismatch_callback demo_env ''SHA256:e2'' demo_key
      14401001 (Inr (Some 1000)) init_state)
      = calls init_state @ [mismatch_alert demo_env ''SHA256:e2'' demo_key]"
    by blast
  from a r1 b b2 b3 e f1 f2 f3 show ?thesis
    by (simp add: init_state_def)
qed

subsection \<open>Accounts that are not active\<close>

text \<open>
  C3. For an account whose stored status is not "active", the password-changed and
  the email-changed handler make no user-facing invocation. Whatever the status,
  they call \<open>operatorMail\<close> with the operator variant of the template exactly when
  one of the columns operator, reader and roleoper is 1. The transport is handed the
  messages of the invocations made and no other.
\<close>

theorem inactive_user_gets_operator_mail_only:
  assumes "users_get (store e) uuid = Inr (Some row)"
  shows "(row_status row \<noteq> ''active'' \<longrightarrow>
           filter user_facing (calls (changedPassword e when uuid email st))
             = filter user_facing (calls st)
         \<and> filter user_facing (calls (changedEmail e when uuid oldEmail newEmail st))
             = filter user_facing (calls st))
       \<and> filter (\<lambda>c. \<not> user_facing c) (calls (changedPassword e when uuid email st)) =
           filter (\<lambda>c. \<not> user_facing c) (calls st) @
           (if row_operator row = 1 \<or> row_reader row = 1 \<or> row_roleoper row = 1
            then [OperatorMail (''Password changed for operator '' @ row_login row)
                    \<lparr> tpl_name = ''oper-pw-changed'',
                      tpl_args = [(''when'', DateV when), (''uuid'', Str uuid),
                                  (''user'', UserV row),
                                  (''cloud_name'', Str (cloud_name (cfg e))),
                                  (''company'', Str (company (cfg e)))] \<rparr>]
            else [])
       \<and> filter (\<lambda>c. \<not> user_facing c) (calls (changedEmail e when uuid oldEmail newEmail st)) =
           filter (\<lambda>c. \<not> user_facing c) (calls st) @
           (if row_operator row = 1 \<or> row_reader row = 1 \<or> row_roleoper row = 1
            then [OperatorMail (''Operator email change for '' @ row_login row)
                    \<lparr> tpl_name = ''oper-email-changed'',
                      tpl_args = [(''when'', DateV when), (''uuid'', Str uuid),
                                  (''oldEmail'', Str oldEmail), (''newEmail'', Str newEmail),
                                  (''user'', UserV row),
                                  (''cloud_name'', Str (cloud_name (cfg e))),
                                  (''company'', Str (company (cfg e)))] \<rparr>]
            else [])
       \<and> sent_follows e st (changedPassword e when uuid email st)
       \<and> sent_follows e st (changedEmail e when uuid oldEmail newEmail st)"
  using assms
  by (simp add: changedPassword_calls changedEmail_calls disabled_def privileged_def
      render_fst sent_follows_changedPassword sent_follows_changedEmail)

theorem inactive_user_gets_operator_mail_only_witness:
  "row_status demo_bob \<noteq> ''active''
   \<and> calls (changedPassword demo_env 1000 ''U2'' ''bob@example.com'' init_state) =
     [OperatorMail ''Password changed for operator bob''
        \<lparr> tpl_name = ''oper-pw-changed'',
          tpl_args = [(''when'', DateV 1000), (''uuid'', Str ''U2''), (''user'', UserV demo_bob),
                      (''cloud_name'', Str ''dc1''), (''company'', Str ''Example'')] \<rparr>]
   \<and> calls (changedEmail demo_env 1000 ''U2'' ''bob@example.com'' ''rob@example.com''
        init_state) =
     [OperatorMail ''Operator email change for bob''
        \<lparr> tpl_name = ''oper-email-changed'',
          tpl_args = [(''when'', DateV 1000), (''uuid'', Str ''U2''),
                      (''oldEmail'', Str ''bob@example.com''),
                      (''newEmail'', Str ''rob@example.com''), (''user'', UserV demo_bob),
                      (''cloud_name'', Str ''dc1''), (''company'', Str ''Example'')] \<rparr>]"
proof -
  have h1: "users_get (store demo_env) ''U2'' = Inr (Some demo_bob)"
    by (simp add: demo_env_def demo_db_def demo_users_def)
  have h2: "row_status demo_bob \<noteq> ''active''"
    by (simp add: demo_bob_def)
  have s: "\<And>cs :: helper_call list.
      filter user_facing cs = [] \<Longrightarrow> filter (\<lambda>c. \<not> user_facing c) cs = cs"
    by (simp add: filter_empty_conv)
  note t = inactive_user_gets_operator_mail_only [OF h1, of 1000 "''bob@example.com''"
        init_state "''bob@example.com''" "''rob@example.com''"]
  from t h2 have a: "filter user_facing
      (calls (changedPassword demo_env 1000 ''U2'' ''bob@example.com'' init_state)) = []"
    and b: "filter user_facing (calls (changedEmail demo_env 1000 ''U2'' ''bob@example.com''
      ''rob@example.com'' init_state)) = []"
    by (simp_all add: init_state_def)
  from t s [OF a] s [OF b] h2 show ?thesis
    by (simp add: demo_bob_def demo_env_def demo_cfg_def init_state_def)
qed

subsection \<open>The whitelist\<close>

text \<open>
  C4. When a non-empty whitelist is configured and does not contain the subject
  uuid, the handlers for password-changed, email-changed, key-added and key-deleted
  make no user-facing invocation, whatever the stored row says and whatever the
  lookups answer. An absent or empty whitelist restricts nothing: every uuid passes
  the test, and an active account found in the store gets its user mail. The
  transport is handed the messages of the invocations made and no other.
\<close>

theorem whitelist_gates_user_mail:
  "(whitelist (cfg e) = Some wl \<and> wl \<noteq> [] \<and> uuid \<notin> set wl \<longrightarrow>
      filter user_facing (calls (changedPassword e when uuid email st))
        = filter user_facing (calls st)
    \<and> filter user_facing (calls (changedEmail e when uuid oldEmail newEmail st))
        = filter user_facing (calls st)
    \<and> filter user_facing (calls (snd (addedKey e when uuid key name otherKeys st)))
        = filter user_facing (calls st)
    \<and> filter user_facing (calls (deletedKey e when uuid key name otherKeys st))
        = filter user_facing (calls st))
   \<and> (whitelist (cfg e) = None \<or> whitelist (cfg e) = Some [] \<longrightarrow>
      whitelisted e uuid
    \<and> (\<forall>row. users_get (store e) uuid = Inr (Some row) \<and> row_status row = ''active'' \<longrightarrow>
          filter user_facing (calls (changedPassword e when uuid email st))
            = filter user_facing (calls st) @
              [UserMail (Addr (row_email row)) ''Your password has been changed''
                \<lparr> tpl_name = ''pw-changed'',
                  tpl_args = [(''when'', DateV when), (''uuid'', Str uuid),
                              (''user'', UserV row),
                              (''cloud_name'', Str (cloud_name (cfg e))),
                              (''company'', Str (company (cfg e)))] \<rparr>]
        \<and> filter user_facing (calls (changedEmail e when uuid oldEmail newEmail st))
            = filter user_facing (calls st) @
              [UserMail (Addrs [oldEmail, newEmail]) ''Your email address has been changed''
                \<lparr> tpl_name = ''email-changed'',
                  tpl_args = [(''when'', DateV when), (''uuid'', Str uuid),
                              (''oldEmail'', Str oldEmail), (''newEmail'', Str newEmail),
                              (''user'', UserV row),
                              (''cloud_name'', Str (cloud_name (cfg e))),
                              (''company'', Str (company (cfg e)))] \<rparr>]
        \<and> filter user_facing (calls (deletedKey e when uuid key name otherKeys st))
            = filter user_facing (calls st) @
              [UserMail (Addr (row_email row))
                (''SSH key deleted from account '' @ row_login row)
                \<lparr> tpl_name = ''deleted-key'',
                  tpl_args = [(''when'', DateV when), (''uuid'', Str uuid), (''key'', KeyV key),
                              (''name'', Str name), (''keys'', KeyListV otherKeys),
                              (''user'', UserV row),
                              (''cloud_name'', Str (cloud_name (cfg e))),
                              (''company'', Str (company (cfg e)))] \<rparr>]))
   \<and> sent_follows e st (changedPassword e when uuid email st)
   \<and> sent_follows e st (changedEmail e when uuid oldEmail newEmail st)
   \<and> sent_follows e st (snd (addedKey e when uuid key name otherKeys st))
   \<and> sent_follows e st (deletedKey e when uuid key name otherKeys st)"
proof (intro conjI impI allI)
  show "sent_follows e st (changedPassword e when uuid email st)"
    by (rule sent_follows_changedPassword)
  show "sent_follows e st (changedEmail e when uuid oldEmail newEmail st)"
    by (rule sent_follows_changedEmail)
  show "sent_follows e st (snd (addedKey e when uuid key name otherKeys st))"
    by (simp add: addedKey_state sent_follows_addedKey_pipeline)
  show "sent_follows e st (deletedKey e when uuid key name otherKeys st)"
    by (rule sent_follows_deletedKey)
next
  assume a: "whitelist (cfg e) = Some wl \<and> wl \<noteq> [] \<and> uuid \<notin> set wl"
  then have nw: "\<not> whitelisted e uuid" by (simp add: not_whitelisted)
  show "filter user_facing (calls (changedPassword e when uuid email st))
        = filter user_facing (calls st)"
    using nw by (simp add: changedPassword_def Let_def case_prod_beta
        split: sum.splits option.splits)
  show "filter user_facing (calls (changedEmail e when uuid oldEmail newEmail st))
        = filter user_facing (calls st)"
    using nw by (simp add: changedEmail_def Let_def case_prod_beta
        split: sum.splits option.splits)
  show "filter user_facing (calls (deletedKey e when uuid key name otherKeys st))
        = filter user_facing (calls st)"
    using nw by (simp add: deletedKey_def Let_def case_prod_beta
        split: sum.splits option.splits)
  show "filter user_facing (calls (snd (addedKey e when uuid key name otherKeys st)))
        = filter user_facing (calls st)"
    using nw by (simp add: addedKey_calls addedKey_pipeline_calls
        split: sum.splits option.splits)
next
  assume b: "whitelist (cfg e) = None \<or> whitelist (cfg e) = Some []"
  then show w: "whitelisted e uuid" by (rule whitelisted_absent_or_empty)
  fix row
  assume r: "users_get (store e) uuid = Inr (Some row) \<and> row_status row = ''active''"
  show "filter user_facing (calls (changedPassword e when uuid email st))
            = filter user_facing (calls st) @
              [UserMail (Addr (row_email row)) ''Your password has been changed''
                \<lparr> tpl_name = ''pw-changed'',
                  tpl_args = [(''when'', DateV when), (''uuid'', Str uuid),
                              (''user'', UserV row),
                              (''cloud_name'', Str (cloud_name (cfg e))),
                              (''company'', Str (company (cfg e)))] \<rparr>]"
    using w r by (simp add: changedPassword_calls disabled_def render_fst)
  show "filter user_facing (calls (changedEmail e when uuid oldEmail newEmail st))
            = filter user_facing (calls st) @
              [UserMail (Addrs [oldEmail, newEmail]) ''Your email address has been changed''
                \<lparr> tpl_name = ''email-changed'',
                  tpl_args = [(''when'', DateV when), (''uuid'', Str uuid),
                              (''oldEmail'', Str oldEmail), (''newEmail'', Str newEmail),
                              (''user'', UserV row),
                              (''cloud_name'', Str (cloud_name (cfg e))),
                              (''company'', Str (company (cfg e)))] \<rparr>]"
    using w r by (simp add: changedEmail_calls disabled_def render_fst)
  show "filter user_facing (calls (deletedKey e when uuid key name otherKeys st))
            = filter user_facing (calls st) @
              [UserMail (Addr (row_email row))
                (''SSH key deleted from account '' @ row_login row)
                \<lparr> tpl_name = ''deleted-key'',
                  tpl_args = [(''when'', DateV when), (''uuid'', Str uuid), (''key'', KeyV key),
                              (''name'', Str name), (''keys'', KeyListV otherKeys),
                              (''user'', UserV row),
                              (''cloud_name'', Str (cloud_name (cfg e))),
                              (''company'', Str (company (cfg e)))] \<rparr>]"
    using w r by (simp add: deletedKey_calls disabled_def render_fst)
qed

theorem whitelist_gates_user_mail_witness:
  "filter user_facing (calls (changedPassword demo_env_whitelist 1000 ''U1''
       ''alice@example.com'' init_state)) = []
   \<and> filter user_facing (calls (changedEmail demo_env_whitelist 1000 ''U1''
       ''alice@example.com'' ''al@example.com'' init_state)) = []
   \<and> filter user_facing (calls (snd (addedKey demo_env_whitelist 1000 ''U1'' demo_key
       ''laptop'' [] init_state))) = []
   \<and> filter user_facing (calls (deletedKey demo_env_whitelist 1000 ''U1'' demo_key
       ''laptop'' [] init_state)) = []
   \<and> whitelisted demo_env ''U1''
   \<and> filter user_facing (calls (deletedKey demo_env 1000 ''U1'' demo_key ''laptop'' []
       init_state)) =
       [UserMail (Addr ''alice@example.com'') ''SSH key deleted from account alice''
          \<lparr> tpl_name = ''deleted-key'',
            tpl_args = [(''when'', DateV 1000), (''uuid'', Str ''U1''), (''key'', KeyV demo_key),
                        (''name'', Str ''laptop''), (''keys'', KeyListV []),
                        (''user'', UserV demo_alice),
                        (''cloud_name'', Str ''dc1''), (''company'', Str ''Example'')] \<rparr>]"
proof -
  have h1: "whitelist (cfg demo_env_whitelist) = Some [''U9''] \<and> [''U9''] \<noteq> []
      \<and> ''U1'' \<notin> set [''U9'']"
    by (simp add: demo_env_whitelist_def demo_env_def demo_cfg_def)
  have h2: "whitelist (cfg demo_env) = None \<or> whitelist (cfg demo_env) = Some []"
    by (simp add: demo_env_def demo_cfg_def)
  have h3: "users_get (store demo_env) ''U1'' = Inr (Some demo_alice)
      \<and> row_status demo_alice = ''active''"
    by (simp add: demo_env_def demo_db_def demo_users_def demo_alice_def)
  show ?thesis
    using h1 h2 h3
      whitelist_gates_user_mail [of demo_env_whitelist "[''U9'']" "''U1''" 1000
        "''alice@example.com''" init_state "''alice@example.com''" "''al@example.com''"
        demo_key "''laptop''" "[]"]
      whitelist_gates_user_mail [of demo_env "[]" "''U1''" 1000
        "''alice@example.com''" init_state "''alice@example.com''" "''al@example.com''"
        demo_key "''laptop''" "[]"]
    by (simp add: init_state_def demo_alice_def demo_env_def demo_cfg_def)
qed

subsection \<open>Initial synchronisation\<close>

text \<open>
  C5. While the initial-synchronisation flag is set, \<open>operatorMail\<close> and \<open>userMail\<close>
  are no-ops: each leaves the state as it is, the record of its own invocation apart,
  so nothing is handed to the mail transport and nothing is logged. Hence no event
  of any kind, and no sequence of events, adds a message to those sent.
\<close>

theorem initial_sync_sends_nothing:
  assumes "initialSync (cfg e)"
  shows "operatorMail e subject txt st = st\<lparr>calls := calls st @ [OperatorMail subject txt]\<rparr>
       \<and> userMail e to subject txt st = st\<lparr>calls := calls st @ [UserMail to subject txt]\<rparr>
       \<and> sent (snd (notify e ev st)) = sent st
       \<and> sent (fold (\<lambda>ev s. snd (notify e ev s)) evs st) = sent st"
  using assms
  by (simp add: operatorMail_def userMail_def notify_initialSync_sent
      notify_all_initialSync_sent)

theorem initial_sync_sends_nothing_witness:
  "initialSync (cfg demo_env_sync)
   \<and> sent (snd (notify demo_env_sync (ChangedPassword 1000 ''U1'' ''alice@example.com'')
              init_state)) = []
   \<and> calls (snd (notify demo_env_sync (ChangedPassword 1000 ''U1'' ''alice@example.com'')
              init_state)) \<noteq> []
   \<and> sent (fold (\<lambda>ev s. snd (notify demo_env_sync ev s))
        [UfdsKeyMismatch ''SHA256:xyz'' demo_key 5000,
         AddedKey 6000 ''U3'' demo_key ''laptop'' [],
         OperatorAdded 7000 ''U2'' None] init_state) = []"
proof -
  have h: "initialSync (cfg demo_env_sync)"
    by (simp add: demo_env_sync_def demo_env_def demo_cfg_def)
  have c: "calls (changedPassword demo_env_sync 1000 ''U1'' ''alice@example.com'' init_state) \<noteq> []"
    by (simp add: changedPassword_def demo_env_sync_def demo_env_def demo_db_def
        demo_users_def demo_alice_def demo_cfg_def whitelisted_def disabled_def
        Let_def case_prod_beta)
  show ?thesis
    using h c
      initial_sync_sends_nothing [OF h, of _ _ init_state _
        "ChangedPassword 1000 ''U1'' ''alice@example.com''"
        "[UfdsKeyMismatch ''SHA256:xyz'' demo_key 5000,
          AddedKey 6000 ''U3'' demo_key ''laptop'' [],
          OperatorAdded 7000 ''U2'' None]"]
    by (simp add: init_state_def)
qed

subsection \<open>Query errors after the first lookup\<close>

text \<open>
  C6. A failing row-store lookup, at any stage of any handler, is to send no mail
  and to be logged exactly once. On a store whose keys table cannot be read,
  \<open>operatorAdded\<close> sends its message, with the keys undefined, and logs only the
  delivery; \<open>addedKey\<close> sends nothing and logs nothing. On a store where the users
  row of another account cannot be read, \<open>addedKey\<close> stops at that lookup and
  logs nothing either.
\<close>

theorem lookup_failure_unlogged:
  "keys_by_uuid (store demo_env_keys_fail) ''U1'' = Inl ''SQLITE_BUSY''
   \<and> sent (operatorAdded demo_env_keys_fail 1000 ''U1'' None init_state) =
     [\<lparr> mail_from = ''alert@example.com'', mail_to = Addrs [''ops@example.com''],
        mail_subject = ''[ops] New operator account alice'',
        mail_text = \<lparr> tpl_name = ''new-operator'',
          tpl_args = [(''when'', DateV 1000), (''uuid'', Str ''U1''),
                      (''user'', UserV demo_alice), (''group'', Str ''operator''),
                      (''keys'', Undefined),
                      (''cloud_name'', Str ''dc1''), (''company'', Str ''Example'')] \<rparr> \<rparr>]
   \<and> logs (operatorAdded demo_env_keys_fail 1000 ''U1'' None init_state)
       = [LogInfo ''sent mail to operators'']
   \<and> keys_by_fingerprint (store demo_env_keys_fail) (fingerprint_md5_hex demo_key) ''U1''
       = Inl ''SQLITE_BUSY''
   \<and> logs (snd (addedKey demo_env_keys_fail 1000 ''U1'' demo_key ''laptop'' [] init_state)) = []
   \<and> users_get (store demo_env_users_fail) ''U2'' = Inl ''SQLITE_BUSY''
   \<and> logs (snd (addedKey demo_env_users_fail 1000 ''U1'' demo_key ''laptop'' [] init_state)) = []
   \<and> queries (snd (addedKey demo_env_users_fail 1000 ''U1'' demo_key ''laptop'' [] init_state))
       = [SelectUser ''U1'', SelectKeysByFingerprint ''0a1b'' ''U1'', SelectUser ''U2'']"
  by (simp add: operatorAdded_def addedKey_def addedKey_pipeline_def getUser_def findKeys_def
      getOtherUsers_def fetchOtherUser_def sendMail_def render_def operatorMail_def
      demo_env_keys_fail_def demo_env_users_fail_def demo_env_def demo_db_def demo_cfg_def
      demo_users_def demo_alice_def demo_key_def demo_loc_def init_state_def
      Let_def case_prod_beta query_add_def log_entry_add_def)

subsection \<open>The key-added pipeline\<close>

text \<open>
  C7. The key-added handler runs four stages in order: the subject's row, the keys
  rows of other accounts with the same fingerprint, the users row of each such
  account one after the other, then composing and sending. The row-store history
  shows the order and where it stops: after the first lookup that does not answer
  with a row no further lookup is made. The pipeline reaches its end exactly when all
  lookups are complete; otherwise no helper is invoked, nothing is sent and no
  template is rendered. When they are complete the added-key text is rendered.
\<close>

theorem addedKey_all_or_nothing:
  "(fst (addedKey_pipeline e when uuid key name otherKeys st) = Next
      \<longleftrightarrow> lookups_complete e uuid key)
   \<and> (\<not> lookups_complete e uuid key \<longrightarrow>
        calls (snd (addedKey e when uuid key name otherKeys st)) = calls st
      \<and> sent (snd (addedKey e when uuid key name otherKeys st)) = sent st
      \<and> tplCache (snd (addedKey e when uuid key name otherKeys st)) = tplCache st)
   \<and> (lookups_complete e uuid key \<longrightarrow>
        ''added-key'' \<in> set (tplCache (snd (addedKey e when uuid key name otherKeys st))))
   \<and> queries (snd (addedKey e when uuid key name otherKeys st)) =
        queries st @ SelectUser uuid #
        (case users_get (store e) uuid of
           Inr (Some row) \<Rightarrow>
             SelectKeysByFingerprint (fingerprint_md5_hex key) uuid #
             (case keys_by_fingerprint (store e) (fingerprint_md5_hex key) uuid of
                Inr locs \<Rightarrow>
                  map (\<lambda>l. SelectUser (loc_uuid l))
                    (takeWhile (\<lambda>l. found (users_get (store e) (loc_uuid l))) locs
                     @ take 1 (dropWhile (\<lambda>l. found (users_get (store e) (loc_uuid l))) locs))
              | Inl err \<Rightarrow> [])
         | _ \<Rightarrow> [])"
proof (cases "users_get (store e) uuid")
  case (Inl err)
  then show ?thesis
    by (simp add: addedKey_state addedKey_pipeline_user_error lookups_complete_def found_def)
next
  case (Inr r)
  show ?thesis
  proof (cases r)
    case None
    with Inr show ?thesis
      by (simp add: addedKey_state addedKey_pipeline_user_missing lookups_complete_def found_def)
  next
    case (Some row)
    with Inr have fu: "found (users_get (store e) uuid)" by (simp add: found_def)
    show ?thesis
    proof (cases "keys_by_fingerprint (store e) (fingerprint_md5_hex key) uuid")
      case (Inl err)
      with Inr Some show ?thesis
        by (simp add: addedKey_state addedKey_pipeline_keys_error lookups_complete_def)
    next
      case inr: (Inr locs)
      show ?thesis
      proof (cases "dropWhile (\<lambda>l. found (users_get (store e) (loc_uuid l))) locs")
        case Nil
        then have all: "list_all (\<lambda>l. found (users_get (store e) (loc_uuid l))) locs"
          by (simp add: list_all_iff)
        then have tw: "takeWhile (\<lambda>l. found (users_get (store e) (loc_uuid l))) locs = locs"
          by (simp add: list_all_iff)
        from all fu inr have lc: "lookups_complete e uuid key"
          by (simp add: lookups_complete_def)
        from Nil Inr Some inr all lc tw show ?thesis
          by (simp add: addedKey_state addedKey_pipeline_fetch forEach_fetch_result
              sendMail_result sendMail_composes
              del: dropWhile_eq_Nil_conv takeWhile_eq_all_conv)
      next
        case (Cons x post)
        then have nall: "\<not> list_all (\<lambda>l. found (users_get (store e) (loc_uuid l))) locs"
          and nf: "\<not> found (users_get (store e) (loc_uuid x))"
          using dropWhile_Cons_not_all [OF Cons] by simp_all
        from nall inr have lc: "\<not> lookups_complete e uuid key"
          by (simp add: lookups_complete_def)
        from Cons Inr Some inr nf lc show ?thesis
          by (simp add: addedKey_state addedKey_pipeline_fetch forEach_fetch_result found_def
              query_add_def split: sum.splits option.splits)
      qed
    qed
  qed
qed

theorem addedKey_all_or_nothing_witness:
  "\<not> lookups_complete demo_env_keys_fail ''U1'' demo_key
   \<and> calls (snd (addedKey demo_env_keys_fail 1000 ''U1'' demo_key ''laptop'' [] init_state)) = []
   \<and> sent (snd (addedKey demo_env_keys_fail 1000 ''U1'' demo_key ''laptop'' [] init_state)) = []
   \<and> queries (snd (addedKey demo_env_keys_fail 1000 ''U1'' demo_key ''laptop'' [] init_state))
       = [SelectUser ''U1'', SelectKeysByFingerprint ''0a1b'' ''U1'']
   \<and> \<not> lookups_complete demo_env_orphan ''U1'' demo_key
   \<and> calls (snd (addedKey demo_env_orphan 1000 ''U1'' demo_key ''laptop'' [] init_state)) = []
   \<and> queries (snd (addedKey demo_env_orphan 1000 ''U1'' demo_key ''laptop'' [] init_state))
       = [SelectUser ''U1'', SelectKeysByFingerprint ''0a1b'' ''U1'',
          SelectUser ''U2'', SelectUser ''U7'']
   \<and> lookups_complete demo_env ''U1'' demo_key
   \<and> fst (addedKey_pipeline demo_env 1000 ''U1'' demo_key ''laptop'' [] init_state) = Next
   \<and> ''added-key'' \<in> set (tplCache (snd (addedKey demo_env 1000 ''U1'' demo_key ''laptop'' []
        init_state)))
   \<and> queries (snd (addedKey demo_env 1000 ''U1'' demo_key ''laptop'' [] init_state))
       = [SelectUser ''U1'', SelectKeysByFingerprint ''0a1b'' ''U1'',
          SelectUser ''U2'', SelectUser ''U3'']"
proof -
  have h1: "\<not> lookups_complete demo_env_keys_fail ''U1'' demo_key"
    by (simp add: lookups_complete_def demo_env_keys_fail_def demo_env_def demo_db_def)
  have h2: "\<not> lookups_complete demo_env_orphan ''U1'' demo_key"
    by (simp add: lookups_complete_def demo_env_orphan_def demo_env_def demo_db_def
        demo_users_def demo_loc_def found_def)
  have h3: "lookups_complete demo_env ''U1'' demo_key"
    by (simp add: lookups_complete_def demo_env_def demo_db_def
        demo_users_def demo_loc_def found_def)
  have u1: "users_get (store demo_env_keys_fail) ''U1'' = Inr (Some demo_alice)"
    "users_get (store demo_env_orphan) ''U1'' = Inr (Some demo_alice)"
    "users_get (store demo_env) ''U1'' = Inr (Some demo_alice)"
    by (simp_all add: demo_env_keys_fail_def demo_env_orphan_def demo_env_def demo_db_def
        demo_users_def)
  have k: "keys_by_fingerprint (store demo_env_keys_fail) ''0a1b'' ''U1'' = Inl ''SQLITE_BUSY''"
    "keys_by_fingerprint (store demo_env_orphan) ''0a1b'' ''U1''
       = Inr [demo_loc ''U2'', demo_loc ''U7'', demo_loc ''U3'']"
    "keys_by_fingerprint (store demo_env) ''0a1b'' ''U1'' = Inr [demo_loc ''U2'', demo_loc ''U3'']"
    by (simp_all add: demo_env_keys_fail_def demo_env_orphan_def demo_env_def demo_db_def)
  have f: "found (users_get (store demo_env_orphan) ''U2'')"
    "\<not> found (users_get (store demo_env_orphan) ''U7'')"
    "found (users_get (store demo_env) ''U2'')"
    "found (users_get (store demo_env) ''U3'')"
    by (simp_all add: demo_env_orphan_def demo_env_def demo_db_def demo_users_def found_def)
  have m: "fingerprint_md5_hex demo_key = ''0a1b''" by (simp add: demo_key_def)
  have l: "loc_uuid (demo_loc ''U2'') = ''U2''" "loc_uuid (demo_loc ''U3'') = ''U3''"
    "loc_uuid (demo_loc ''U7'') = ''U7''"
    by (simp_all add: demo_loc_def)
  show ?thesis
    using h1 h2 h3
      addedKey_all_or_nothing [of demo_env_keys_fail 1000 "''U1''" demo_key "''laptop''" "[]"
        init_state]
      addedKey_all_or_nothing [of demo_env_orphan 1000 "''U1''" demo_key "''laptop''" "[]"
        init_state]
      addedKey_all_or_nothing [of demo_env 1000 "''U1''" demo_key "''laptop''" "[]" init_state]
    by (simp add: u1 k f m l init_state_def)
qed

subsection \<open>Two other accounts with the same key\<close>

text \<open>
  C8. A key-added event where two other accounts hold the fingerprint and both have
  a users row: the variables of the user text and of the operator text carry both
  keys rows, each with the login and email of its account. The rows are filled in
  one by one from their own uuid, so in whatever order the two rows are listed the
  stage succeeds with the same set of filled rows.
\<close>

theorem addedKey_joins_other_accounts:
  assumes "users_get (store e) uuid = Inr (Some row)"
    and "keys_by_fingerprint (store e) (fingerprint_md5_hex key) uuid = Inr [l1, l2]"
    and "users_get (store e) (loc_uuid l1) = Inr (Some r1)"
    and "users_get (store e) (loc_uuid l2) = Inr (Some r2)"
  shows "calls (snd (addedKey e when uuid key name otherKeys st)) =
      calls st
      @ (if whitelisted e uuid \<and> row_status row = ''active''
         then [UserMail (Addr (row_email row)) (''New SSH key added to account '' @ row_login row)
                 \<lparr> tpl_name = ''added-key'',
                   tpl_args =
                     [(''when'', DateV when), (''uuid'', Str uuid), (''key'', KeyV key),
                      (''name'', Str name), (''keys'', KeyListV otherKeys),
                      (''otherLocations'', LocationsV
                         [l1\<lparr>loc_login := Some (row_login r1), loc_email := Some (row_email r1)\<rparr>,
                          l2\<lparr>loc_login := Some (row_login r2), loc_email := Some (row_email r2)\<rparr>]),
                      (''user'', UserV row),
                      (''cloud_name'', Str (cloud_name (cfg e))),
                      (''company'', Str (company (cfg e)))] \<rparr>]
         else [])
      @ (if row_operator row = 1 \<or> row_reader row = 1 \<or> row_roleoper row = 1
         then [OperatorMail (''SSH key added to operator '' @ row_login row)
                 \<lparr> tpl_name = ''oper-added-key'',
                   tpl_args =
                     [(''when'', DateV when), (''uuid'', Str uuid), (''key'', KeyV key),
                      (''name'', Str name), (''keys'', KeyListV otherKeys),
                      (''user'', UserV row),
                      (''otherLocations'', LocationsV
                         [l1\<lparr>loc_login := Some (row_login r1), loc_email := Some (row_email r1)\<rparr>,
                          l2\<lparr>loc_login := Some (row_login r2), loc_email := Some (row_email r2)\<rparr>]),
                      (''cloud_name'', Str (cloud_name (cfg e))),
                      (''company'', Str (company (cfg e)))] \<rparr>]
         else [])
   \<and> (\<forall>locs. set locs = {l1, l2} \<longrightarrow>
         fst (forEachPipeline (fetchOtherUser e) locs st) = Next
       \<and> set (fst (snd (forEachPipeline (fetchOtherUser e) locs st))) =
           {l1\<lparr>loc_login := Some (row_login r1), loc_email := Some (row_email r1)\<rparr>,
            l2\<lparr>loc_login := Some (row_login r2), loc_email := Some (row_email r2)\<rparr>})"
proof (intro conjI allI impI)
  have j: "joined e l1 = l1\<lparr>loc_login := Some (row_login r1), loc_email := Some (row_email r1)\<rparr>"
    "joined e l2 = l2\<lparr>loc_login := Some (row_login r2), loc_email := Some (row_email r2)\<rparr>"
    using assms by (simp_all add: joined_def)
  have f: "found (users_get (store e) (loc_uuid l1))" "found (users_get (store e) (loc_uuid l2))"
    using assms by (simp_all add: found_def)
  show "calls (snd (addedKey e when uuid key name otherKeys st)) =
      calls st
      @ (if whitelisted e uuid \<and> row_status row = ''active''
         then [UserMail (Addr (row_email row)) (''New SSH key added to account '' @ row_login row)
                 \<lparr> tpl_name = ''added-key'',
                   tpl_args =
                     [(''when'', DateV when), (''uuid'', Str uuid), (''key'', KeyV key),
                      (''name'', Str name), (''keys'', KeyListV otherKeys),
                      (''otherLocations'', LocationsV
                         [l1\<lparr>loc_login := Some (row_login r1), loc_email := Some (row_email r1)\<rparr>,
                          l2\<lparr>loc_login := Some (row_login r2), loc_email := Some (row_email r2)\<rparr>]),
                      (''user'', UserV row),
                      (''cloud_name'', Str (cloud_name (cfg e))),
                      (''company'', Str (company (cfg e)))] \<rparr>]
         else [])
      @ (if row_operator row = 1 \<or> row_reader row = 1 \<or> row_roleoper row = 1
         then [OperatorMail (''SSH key added to operator '' @ row_login row)
                 \<lparr> tpl_name = ''oper-added-key'',
                   tpl_args =
                     [(''when'', DateV when), (''uuid'', Str uuid), (''key'', KeyV key),
                      (''name'', Str name), (''keys'', KeyListV otherKeys),
                      (''user'', UserV row),
                      (''otherLocations'', LocationsV
                         [l1\<lparr>loc_login := Some (row_login r1), loc_email := Some (row_email r1)\<rparr>,
                          l2\<lparr>loc_login := Some (row_login r2), loc_email := Some (row_email r2)\<rparr>]),
                      (''cloud_name'', Str (cloud_name (cfg e))),
                      (''company'', Str (company (cfg e)))] \<rparr>]
         else [])"
    using assms(1,2) f
    by (simp add: addedKey_calls addedKey_pipeline_calls j render_fst disabled_def
        privileged_def)
  fix locs :: "location list"
  assume s: "set locs = {l1, l2}"
  then have d: "dropWhile (\<lambda>l. found (users_get (store e) (loc_uuid l))) locs = []"
    using f by auto
  show "fst (forEachPipeline (fetchOtherUser e) locs st) = Next"
    using d by (simp add: forEach_fetch_result del: dropWhile_eq_Nil_conv)
  show "set (fst (snd (forEachPipeline (fetchOtherUser e) locs st))) =
           {l1\<lparr>loc_login := Some (row_login r1), loc_email := Some (row_email r1)\<rparr>,
            l2\<lparr>loc_login := Some (row_login r2), loc_email := Some (row_email r2)\<rparr>}"
    using d s by (simp add: forEach_fetch_result j del: dropWhile_eq_Nil_conv)
qed

theorem addedKey_joins_other_accounts_witness:
  "calls (snd (addedKey demo_env 1000 ''U1'' demo_key ''laptop'' [] init_state)) =
     [UserMail (Addr ''alice@example.com'') ''New SSH key added to account alice''
        \<lparr> tpl_name = ''added-key'',
          tpl_args =
            [(''when'', DateV 1000), (''uuid'', Str ''U1''), (''key'', KeyV demo_key),
             (''name'', Str ''laptop''), (''keys'', KeyListV []),
             (''otherLocations'', LocationsV
                [\<lparr> loc_uuid = ''U2'', loc_name = ''laptop'', loc_comment = ''work'',
                   loc_login = Some ''bob'', loc_email = Some ''bob@example.com'' \<rparr>,
                 \<lparr> loc_uuid = ''U3'', loc_name = ''laptop'', loc_comment = ''work'',
                   loc_login = Some ''carol'', loc_email = Some ''carol@example.com'' \<rparr>]),
             (''user'', UserV demo_alice),
             (''cloud_name'', Str ''dc1''), (''company'', Str ''Example'')] \<rparr>]
   \<and> set (fst (snd (forEachPipeline (fetchOtherUser demo_env)
          [demo_loc ''U3'', demo_loc ''U2''] init_state))) =
       {\<lparr> loc_uuid = ''U2'', loc_name = ''laptop'', loc_comment = ''work'',
          loc_login = Some ''bob'', loc_email = Some ''bob@example.com'' \<rparr>,
        \<lparr> loc_uuid = ''U3'', loc_name = ''laptop'', loc_comment = ''work'',
          loc_login = Some ''carol'', loc_email = Some ''carol@example.com'' \<rparr>}"
proof -
  have h1: "users_get (store demo_env) ''U1'' = Inr (Some demo_alice)"
    by (simp add: demo_env_def demo_db_def demo_users_def)
  have h2: "keys_by_fingerprint (store demo_env) (fingerprint_md5_hex demo_key) ''U1''
      = Inr [demo_loc ''U2'', demo_loc ''U3'']"
    by (simp add: demo_env_def demo_db_def)
  have h3: "users_get (store demo_env) (loc_uuid (demo_loc ''U2'')) = Inr (Some demo_bob)"
    by (simp add: demo_env_def demo_db_def demo_users_def demo_loc_def)
  have h4: "users_get (store demo_env) (loc_uuid (demo_loc ''U3'')) = Inr (Some demo_carol)"
    by (simp add: demo_env_def demo_db_def demo_users_def demo_loc_def)
  have s: "set [demo_loc ''U3'', demo_loc ''U2''] = {demo_loc ''U2'', demo_loc ''U3''}"
    by auto
  have w: "whitelisted demo_env ''U1''"
    by (simp add: whitelisted_def demo_env_def demo_cfg_def)
  note t = addedKey_joins_other_accounts [OF h1 h2 h3 h4, of 1000 "''laptop''" "[]" init_state]
  note ta = t [THEN conjunct1]
  note tb = t [THEN conjunct2, rule_format, of "[demo_loc ''U3'', demo_loc ''U2'']",
      THEN conjunct2]
  from ta have t1: "calls (snd (addedKey demo_env 1000 ''U1'' demo_key ''laptop'' [] init_state)) =
     [UserMail (Addr ''alice@example.com'') ''New SSH key added to account alice''
        \<lparr> tpl_name = ''added-key'',
          tpl_args =
            [(''when'', DateV 1000), (''uuid'', Str ''U1''), (''key'', KeyV demo_key),
             (''name'', Str ''laptop''), (''keys'', KeyListV []),
             (''otherLocations'', LocationsV
                [\<lparr> loc_uuid = ''U2'', loc_name = ''laptop'', loc_comment = ''work'',
                   loc_login = Some ''bob'', loc_email = Some ''bob@example.com'' \<rparr>,
                 \<lparr> loc_uuid = ''U3'', loc_name = ''laptop'', loc_comment = ''work'',
                   loc_login = Some ''carol'', loc_email = Some ''carol@example.com'' \<rparr>]),
             (''user'', UserV demo_alice),
             (''cloud_name'', Str ''dc1''), (''company'', Str ''Example'')] \<rparr>]"
    using w
    by (simp add: init_state_def demo_alice_def demo_bob_def demo_carol_def demo_loc_def
        demo_env_def demo_cfg_def)
  from tb s have t2: "set (fst (snd (forEachPipeline (fetchOtherUser demo_env)
          [demo_loc ''U3'', demo_loc ''U2''] init_state))) =
       {\<lparr> loc_uuid = ''U2'', loc_name = ''laptop'', loc_comment = ''work'',
          loc_login = Some ''bob'', loc_email = Some ''bob@example.com'' \<rparr>,
        \<lparr> loc_uuid = ''U3'', loc_name = ''laptop'', loc_comment = ''work'',
          loc_login = Some ''carol'', loc_email = Some ''carol@example.com'' \<rparr>}"
    by (simp add: demo_bob_def demo_carol_def demo_loc_def)
  from t1 t2 show ?thesis by simp
qed

subsection \<open>Password change of an ordinary active account\<close>

text \<open>
  C9. The event password-changed for an account whose stored row is active and holds
  none of the operator, reader and role-operator flags, with an absent or empty
  whitelist: the handler calls \<open>userMail\<close> exactly once, with the row's email as the
  recipient and the subject "Your password has been changed" (the prefix is added
  inside the helper), the text being the template pw-changed; it does not call
  \<open>operatorMail\<close>. The event's own email argument is not read. Outside initial
  synchronisation this is exactly one message for the transport.
\<close>

theorem changedPassword_active_unprivileged:
  assumes "users_get (store e) uuid = Inr (Some row)"
    and "row_status row = ''active''"
    and "row_operator row \<noteq> 1 \<and> row_reader row \<noteq> 1 \<and> row_roleoper row \<noteq> 1"
    and "whitelist (cfg e) = None \<or> whitelist (cfg e) = Some []"
  shows "calls (changedPassword e when uuid email st) =
           calls st @ [UserMail (Addr (row_email row)) ''Your password has been changed''
             \<lparr> tpl_name = ''pw-changed'',
               tpl_args = [(''when'', DateV when), (''uuid'', Str uuid), (''user'', UserV row),
                           (''cloud_name'', Str (cloud_name (cfg e))),
                           (''company'', Str (company (cfg e)))] \<rparr>]
         \<and> sent (changedPassword e when uuid email st) =
           sent st @ (if initialSync (cfg e) then []
             else [\<lparr> mail_from = my_email (cfg e), mail_to = Addr (row_email row),
                     mail_subject = user_prefix (cfg e) @ ''Your password has been changed'',
                     mail_text = \<lparr> tpl_name = ''pw-changed'',
                       tpl_args = [(''when'', DateV when), (''uuid'', Str uuid),
                                   (''user'', UserV row),
                                   (''cloud_name'', Str (cloud_name (cfg e))),
                                   (''company'', Str (company (cfg e)))] \<rparr> \<rparr>])"
  using assms whitelisted_absent_or_empty [OF assms(4), of uuid]
  by (simp add: changedPassword_def Let_def case_prod_beta render_fst disabled_def privileged_def)

theorem changedPassword_active_unprivileged_witness:
  "calls (changedPassword demo_env 1000 ''U1'' ''alice@example.com'' init_state) =
     [UserMail (Addr ''alice@example.com'') ''Your password has been changed''
        \<lparr> tpl_name = ''pw-changed'',
          tpl_args = [(''when'', DateV 1000), (''uuid'', Str ''U1''), (''user'', UserV demo_alice),
                      (''cloud_name'', Str ''dc1''), (''company'', Str ''Example'')] \<rparr>]
   \<and> length (sent (changedPassword demo_env 1000 ''U1'' ''alice@example.com'' init_state)) = 1"
  using changedPassword_active_unprivileged
    [of demo_env "''U1''" demo_alice 1000 "''alice@example.com''" init_state]
  by (simp add: demo_env_def demo_db_def demo_users_def demo_alice_def demo_cfg_def init_state_def)

subsection \<open>A keys row without a users row\<close>

text \<open>
  C10. \<open>fetchOtherUser\<close> reads the login of the row it is given without testing
  it: when the lookup answers with no row, a TypeError is thrown. So when the users
  lookups of the stage meet no query error and one uuid of the keys rows has no users
  row, the handler ends in an uncaught exception, with nothing logged and nothing
  sent. The stage never throws when every uuid has a row or an error, and it runs to
  its end when every uuid has a row.
\<close>

theorem fetchOtherUser_missing_row_throws:
  "(users_get (store e) (loc_uuid user) = Inr None \<longrightarrow>
      fetchOtherUser e user st
        = (Thrown ''TypeError'', user, query_add (SelectUser (loc_uuid user)) st))
   \<and> (users_get (store e) uuid = Inr (Some row)
      \<and> keys_by_fingerprint (store e) (fingerprint_md5_hex key) uuid = Inr locs
      \<and> (\<forall>l \<in> set locs. \<forall>err. users_get (store e) (loc_uuid l) \<noteq> Inl err)
      \<and> (\<exists>l \<in> set locs. users_get (store e) (loc_uuid l) = Inr None) \<longrightarrow>
        fst (addedKey e when uuid key name otherKeys st) = Uncaught ''TypeError''
      \<and> logs (snd (addedKey e when uuid key name otherKeys st)) = logs st
      \<and> calls (snd (addedKey e when uuid key name otherKeys st)) = calls st
      \<and> sent (snd (addedKey e when uuid key name otherKeys st)) = sent st)
   \<and> ((\<forall>l \<in> set locs. users_get (store e) (loc_uuid l) \<noteq> Inr None) \<longrightarrow>
        (\<forall>x. fst (forEachPipeline (fetchOtherUser e) locs st) \<noteq> Thrown x))
   \<and> ((\<forall>l \<in> set locs. found (users_get (store e) (loc_uuid l))) \<longrightarrow>
        fst (forEachPipeline (fetchOtherUser e) locs st) = Next)"
proof (intro conjI impI)
  assume "users_get (store e) (loc_uuid user) = Inr None"
  then show "fetchOtherUser e user st
        = (Thrown ''TypeError'', user, query_add (SelectUser (loc_uuid user)) st)"
    by (simp add: fetchOtherUser_def)
next
  assume a: "users_get (store e) uuid = Inr (Some row)
      \<and> keys_by_fingerprint (store e) (fingerprint_md5_hex key) uuid = Inr locs
      \<and> (\<forall>l \<in> set locs. \<forall>err. users_get (store e) (loc_uuid l) \<noteq> Inl err)
      \<and> (\<exists>l \<in> set locs. users_get (store e) (loc_uuid l) = Inr None)"
  let ?P = "\<lambda>l. found (users_get (store e) (loc_uuid l))"
  from a obtain l where lin: "l \<in> set locs"
    and ln: "users_get (store e) (loc_uuid l) = Inr None"
    by blast
  from ln have "\<not> ?P l" by (simp add: found_def)
  with lin have "\<not> list_all ?P locs"
    by (auto simp: list_all_iff)
  then obtain x post where d: "dropWhile ?P locs = x # post"
    by (cases "dropWhile ?P locs") (auto simp: list_all_iff)
  from dropWhile_Cons_not_all [OF d] have nf: "\<not> ?P x" and xin: "x \<in> set locs"
    by simp_all
  from a xin nf have xn: "users_get (store e) (loc_uuid x) = Inr None"
    by (cases "users_get (store e) (loc_uuid x)")
      (auto simp: found_def split: option.splits)
  have p: "addedKey_pipeline e when uuid key name otherKeys st =
      (Thrown ''TypeError'',
       \<lparr> ctx_user = Some row, ctx_otherLocations = Some (map (joined e) (takeWhile ?P locs) @ x # post) \<rparr>,
       (query_add (SelectKeysByFingerprint (fingerprint_md5_hex key) uuid)
               (query_add (SelectUser uuid) st))
        \<lparr>queries := queries (query_add (SelectKeysByFingerprint (fingerprint_md5_hex key) uuid)
               (query_add (SelectUser uuid) st)) @ map (\<lambda>l. SelectUser (loc_uuid l))
                 (takeWhile ?P locs @ [x])\<rparr>)"
    using a d xn by (simp add: addedKey_pipeline_fetch forEach_fetch_result)
  show "fst (addedKey e when uuid key name otherKeys st) = Uncaught ''TypeError''"
    by (simp add: addedKey_def p)
  show "logs (snd (addedKey e when uuid key name otherKeys st)) = logs st"
    by (simp add: addedKey_def p)
  show "calls (snd (addedKey e when uuid key name otherKeys st)) = calls st"
    by (simp add: addedKey_def p)
  show "sent (snd (addedKey e when uuid key name otherKeys st)) = sent st"
    by (simp add: addedKey_def p)
next
  assume a: "\<forall>l \<in> set locs. users_get (store e) (loc_uuid l) \<noteq> Inr None"
  let ?P = "\<lambda>l. found (users_get (store e) (loc_uuid l))"
  show "\<forall>x. fst (forEachPipeline (fetchOtherUser e) locs st) \<noteq> Thrown x"
  proof (cases "dropWhile ?P locs")
    case Nil
    then show ?thesis
      by (simp add: forEach_fetch_result del: dropWhile_eq_Nil_conv)
  next
    case (Cons y ys)
    from dropWhile_Cons_not_all [OF Cons] a
    have "users_get (store e) (loc_uuid y) \<noteq> Inr None" by simp
    moreover from dropWhile_Cons_not_all [OF Cons] have "\<not> ?P y" by simp
    ultimately show ?thesis using Cons
      by (simp add: forEach_fetch_result found_def split: sum.splits option.splits)
  qed
next
  assume "\<forall>l \<in> set locs. found (users_get (store e) (loc_uuid l))"
  then have "dropWhile (\<lambda>l. found (users_get (store e) (loc_uuid l))) locs = []"
    by simp
  then show "fst (forEachPipeline (fetchOtherUser e) locs st) = Next"
    by (simp add: forEach_fetch_result del: dropWhile_eq_Nil_conv)
qed

theorem fetchOtherUser_missing_row_throws_witness:
  "fetchOtherUser demo_env_orphan (demo_loc ''U7'') init_state
     = (Thrown ''TypeError'', demo_loc ''U7'', query_add (SelectUser ''U7'') init_state)
   \<and> fst (addedKey demo_env_orphan 1000 ''U1'' demo_key ''laptop'' [] init_state)
       = Uncaught ''TypeError''
   \<and> logs (snd (addedKey demo_env_orphan 1000 ''U1'' demo_key ''laptop'' [] init_state)) = []
   \<and> fst (forEachPipeline (fetchOtherUser demo_env) [demo_loc ''U2'', demo_loc ''U3'']
         init_state) = Next"
proof -
  have h1: "users_get (store demo_env_orphan) (loc_uuid (demo_loc ''U7'')) = Inr None"
    by (simp add: demo_env_orphan_def demo_env_def demo_db_def demo_users_def demo_loc_def)
  have h2: "users_get (store demo_env_orphan) ''U1'' = Inr (Some demo_alice)
      \<and> keys_by_fingerprint (store demo_env_orphan) (fingerprint_md5_hex demo_key) ''U1''
          = Inr [demo_loc ''U2'', demo_loc ''U7'', demo_loc ''U3'']
      \<and> (\<forall>l \<in> set [demo_loc ''U2'', demo_loc ''U7'', demo_loc ''U3''].
            \<forall>err. users_get (store demo_env_orphan) (loc_uuid l) \<noteq> Inl err)
      \<and> (\<exists>l \<in> set [demo_loc ''U2'', demo_loc ''U7'', demo_loc ''U3''].
            users_get (store demo_env_orphan) (loc_uuid l) = Inr None)"
    by (simp add: demo_env_orphan_def demo_env_def demo_db_def demo_users_def demo_loc_def)
  have h3: "\<forall>l \<in> set [demo_loc ''U2'', demo_loc ''U3''].
      found (users_get (store demo_env) (loc_uuid l))"
    by (simp add: demo_env_def demo_db_def demo_users_def demo_loc_def found_def)
  then have h4: "\<forall>l \<in> set [demo_loc ''U2'', demo_loc ''U3''].
      users_get (store demo_env) (loc_uuid l) \<noteq> Inr None"
    by (auto simp: found_def)
  have t1: "fetchOtherUser demo_env_orphan (demo_loc ''U7'') init_state
     = (Thrown ''TypeError'', demo_loc ''U7'',
        query_add (SelectUser (loc_uuid (demo_loc ''U7''))) init_state)"
    using h1 fetchOtherUser_missing_row_throws [where e = demo_env_orphan
        and user = "demo_loc ''U7''" and st = init_state]
    by simp
  have t2: "fst (addedKey demo_env_orphan 1000 ''U1'' demo_key ''laptop'' [] init_state)
       = Uncaught ''TypeError''
     \<and> logs (snd (addedKey demo_env_orphan 1000 ''U1'' demo_key ''laptop'' [] init_state))
       = logs init_state"
    using h2 fetchOtherUser_missing_row_throws [where e = demo_env_orphan and uuid = "''U1''"
        and row = demo_alice and key = demo_key
        and locs = "[demo_loc ''U2'', demo_loc ''U7'', demo_loc ''U3'']"
        and st = init_state and ?when = 1000 and name = "''laptop''" and otherKeys = "[]"]
    by simp
  have t3: "fst (forEachPipeline (fetchOtherUser demo_env) [demo_loc ''U2'', demo_loc ''U3'']
         init_state) = Next"
    using h3 h4 fetchOtherUser_missing_row_throws [where e = demo_env and st = init_state
        and locs = "[demo_loc ''U2'', demo_loc ''U3'']"]
    by simp
  show ?thesis
    using t1 t2 t3 by (simp add: demo_loc_def init_state_def)
qed

end
